theory Spec2Isabelle
  imports Complex_Main "HOL-Library.Sublist" "HOL-Library.Multiset"
begin

section \<open>Execution records (types/execution.ts)\<close>

text \<open>
  Timestamps are JavaScript \<open>Date\<close> values read through \<open>getTime()\<close>: milliseconds since
  the epoch, modelled as \<open>int\<close>. A field typed \<open>Date | null\<close> is an \<open>int option\<close>.
\<close>

datatype ExecutionStatus = PENDING | STARTED | SUCCESS | FAILURE

record LogEntry =
  mensagem :: string
  data :: string

record Execution =
  requestId :: string
  pipelineName :: string
  version :: string
  params :: string
  status :: ExecutionStatus
  retryCount :: int
  createdAt :: int
  startedAt :: "int option"
  finishedAt :: "int option"
  outputType :: "string option"
  outputPath :: "string option"
  error :: "string option"
  logs :: "LogEntry list"

section \<open>Download availability (monitor page and mock data)\<close>

text \<open>\<open>const threeHours = 3 * 60 * 60 * 1000\<close>\<close>

definition threeHours :: int where
  "threeHours = 3 * 60 * 60 * 1000"

text \<open>
  \<open>isDownloadAvailable\<close> of the monitor page; \<open>Date.now()\<close> is the parameter \<open>now\<close>.
  \<open>!execution.finishedAt\<close> holds exactly for \<open>null\<close>, a \<open>Date\<close> object being truthy.
\<close>

definition isDownloadAvailable :: "int \<Rightarrow> Execution \<Rightarrow> bool" where
  "isDownloadAvailable now execution =
     (if status execution \<noteq> SUCCESS \<or> finishedAt execution = None then False
      else now - the (finishedAt execution) \<le> threeHours)"

definition getExpiryDate :: "int \<Rightarrow> int" where
  "getExpiryDate finished = finished + 3 * 60 * 60 * 1000"

text \<open>
  What the table row of the monitor renders for one execution: the availability cell
  (a countdown to the expiry date, the word "Expirado", or a dash), whether the download
  button is disabled, and the tooltip of the button.
\<close>

datatype availability_cell = Countdown int | Expirado | Dash

definition availabilityCell :: "int \<Rightarrow> Execution \<Rightarrow> availability_cell" where
  "availabilityCell now execution =
     (if status execution = SUCCESS \<and> finishedAt execution \<noteq> None
      then (if isDownloadAvailable now execution
            then Countdown (getExpiryDate (the (finishedAt execution)))
            else Expirado)
      else Dash)"

definition downloadDisabled :: "int \<Rightarrow> Execution \<Rightarrow> bool" where
  "downloadDisabled now execution = (\<not> isDownloadAvailable now execution)"

datatype tooltip = BaixarArquivo | ArquivoExpirado | DownloadIndisponivel

definition downloadTooltip :: "int \<Rightarrow> Execution \<Rightarrow> tooltip" where
  "downloadTooltip now execution =
     (if isDownloadAvailable now execution then BaixarArquivo
      else if status execution = SUCCESS then ArquivoExpirado
      else DownloadIndisponivel)"

text \<open>
  \<open>handleDownload\<close> returns at once when the download is not available; otherwise it
  requests the artifact of the execution. The result is the request id it asks for.
\<close>

definition handleDownload :: "int \<Rightarrow> Execution \<Rightarrow> string option" where
  "handleDownload now execution =
     (if \<not> isDownloadAvailable now execution then None else Some (requestId execution))"

text \<open>
  \<open>downloadMockFile\<close> of lib/mock-data.ts, over the list \<open>mockExecutions\<close>. Its four failure
  messages are the constructors of \<open>download_result\<close>, in the order of the source.
\<close>

fun getMockExecutionById :: "Execution list \<Rightarrow> string \<Rightarrow> Execution option" where
  "getMockExecutionById [] rid = None"
| "getMockExecutionById (exec # rest) rid =
     (if requestId exec = rid then Some exec else getMockExecutionById rest rid)"

datatype download_result =
  DownloadOk | NotFound | OnlySuccessful | NotFinished | FileExpired

definition downloadMockFile :: "Execution list \<Rightarrow> int \<Rightarrow> string \<Rightarrow> download_result" where
  "downloadMockFile mockExecutions now rid =
     (case getMockExecutionById mockExecutions rid of
        None \<Rightarrow> NotFound
      | Some execution \<Rightarrow>
          if status execution \<noteq> SUCCESS then OnlySuccessful
          else (case finishedAt execution of
                  None \<Rightarrow> NotFinished
                | Some finished \<Rightarrow>
                    let threeHoursInMs = 3 * 60 * 60 * 1000 in
                    if now - finished > threeHoursInMs then FileExpired
                    else DownloadOk))"

section \<open>JavaScript values and built-in conversions\<close>

text \<open>
  A JavaScript number that a decimal text denotes is \<open>Dec m e\<close>, the value \<open>m * 10^e\<close> with
  \<open>m\<close> not divisible by 10 (zero is \<open>Dec 0 0\<close>), beside \<open>NaN\<close> and the two infinities.
  Texts beyond the largest double denote an infinity and texts below the smallest denote
  zero, as in JavaScript; the rounding of longer decimals to 53 bits and the sign of zero
  are not modelled, so the model is exact for decimals of at most 15 significant digits.
\<close>

datatype jsnum = NaN | PosInfinity | NegInfinity | Dec int int

definition isDigit :: "char \<Rightarrow> bool" where
  "isDigit c = (48 \<le> (of_char c :: nat) \<and> (of_char c :: nat) \<le> 57)"

definition digitVal :: "char \<Rightarrow> nat" where
  "digitVal c = (of_char c :: nat) - 48"

definition natOfDigits :: "string \<Rightarrow> nat" where
  "natOfDigits ds = foldl (\<lambda>acc c. 10 * acc + digitVal c) 0 ds"

definition isZeroChar :: "char \<Rightarrow> bool" where
  "isZeroChar c = (c = CHR ''0'')"

text \<open>
  \<open>mkDec negative digits e\<close> is the number whose decimal digits are \<open>digits\<close>, scaled by
  \<open>10^e\<close>. \<open>2^1024 - 2^970\<close> is the least magnitude that rounds to infinity, and \<open>2^-1075\<close>
  the greatest that rounds to zero.
\<close>

definition mkDec :: "bool \<Rightarrow> string \<Rightarrow> int \<Rightarrow> jsnum" where
  "mkDec negative digits e =
     (let ds = dropWhile isZeroChar digits;
          zeros = length (takeWhile isZeroChar (rev ds));
          ds' = take (length ds - zeros) ds;
          m = int (natOfDigits ds');
          e' = e + int zeros
      in if ds' = [] then Dec 0 0
         else if 0 \<le> e' \<and> m * 10 ^ nat e' \<ge> 2 ^ 1024 - 2 ^ 970
           then (if negative then NegInfinity else PosInfinity)
         else if e' < 0 \<and> m \<ge> (2 ^ 1024 - 2 ^ 970) * 10 ^ nat (- e')
           then (if negative then NegInfinity else PosInfinity)
         else if e' < 0 \<and> m * 2 ^ 1075 \<le> 10 ^ nat (- e') then Dec 0 0
         else Dec (if negative then - m else m) e')"

text \<open>
  White space and line terminators of ECMAScript among the code units below 256:
  TAB, LF, VT, FF, CR, SP and NBSP. \<open>trim\<close> is \<open>String.prototype.trim\<close>.
\<close>

definition isWhiteSpace :: "char \<Rightarrow> bool" where
  "isWhiteSpace c = ((of_char c :: nat) \<in> {9, 10, 11, 12, 13, 32, 160})"

definition trimStart :: "string \<Rightarrow> string" where
  "trimStart s = dropWhile isWhiteSpace s"

definition trim :: "string \<Rightarrow> string" where
  "trim s = rev (dropWhile isWhiteSpace (rev (dropWhile isWhiteSpace s)))"

text \<open>Digits of a radix up to 16, for the literals \<open>0x..\<close>, \<open>0o..\<close>, \<open>0b..\<close> and \<open>parseInt\<close>.\<close>

definition radixDigit :: "nat \<Rightarrow> char \<Rightarrow> nat option" where
  "radixDigit radix c =
     (let n = (of_char c :: nat);
          v = (if 48 \<le> n \<and> n \<le> 57 then n - 48
               else if 97 \<le> n \<and> n \<le> 102 then n - 87
               else if 65 \<le> n \<and> n \<le> 70 then n - 55
               else 16)
      in if v < radix then Some v else None)"

definition natOfRadix :: "nat \<Rightarrow> string \<Rightarrow> nat" where
  "natOfRadix radix ds = foldl (\<lambda>acc c. radix * acc + the (radixDigit radix c)) 0 ds"

definition decOfInt :: "bool \<Rightarrow> nat \<Rightarrow> jsnum" where
  "decOfInt negative n =
     (if n = 0 then Dec 0 0
      else if int n \<ge> 2 ^ 1024 - 2 ^ 970 then (if negative then NegInfinity else PosInfinity)
      else (let z = length (takeWhile (\<lambda>k. n mod 10 ^ k = 0) [1..<400]) in
            Dec ((if negative then - 1 else 1) * int (n div 10 ^ z)) (int z)))"

text \<open>
  The part of a decimal literal after the sign: digits, an optional fraction and an
  optional exponent. \<open>scanDecimal\<close> returns the mantissa digits, the exponent and the rest
  of the text, or \<open>None\<close> when the text does not start with a decimal literal. An "e" that
  no exponent digits follow is not part of the literal.
\<close>

definition scanExponent :: "string \<Rightarrow> int \<times> string" where
  "scanExponent s =
     (case s of
        [] \<Rightarrow> (0, s)
      | c # r \<Rightarrow>
          if c = CHR ''e'' \<or> c = CHR ''E'' then
            (let neg = (r \<noteq> [] \<and> hd r = CHR ''-'');
                 r' = (if r \<noteq> [] \<and> (hd r = CHR ''-'' \<or> hd r = CHR ''+'') then tl r else r);
                 ds = takeWhile isDigit r'
             in if ds = [] then (0, s)
                else ((if neg then - int (natOfDigits ds) else int (natOfDigits ds)),
                      dropWhile isDigit r'))
          else (0, s))"

definition scanDecimal :: "string \<Rightarrow> (string \<times> int \<times> string) option" where
  "scanDecimal s =
     (let ip = takeWhile isDigit s;
          r1 = dropWhile isDigit s;
          dot = (r1 \<noteq> [] \<and> hd r1 = CHR ''.'');
          fp = (if dot then takeWhile isDigit (tl r1) else []);
          r2 = (if dot then dropWhile isDigit (tl r1) else r1)
      in if ip = [] \<and> fp = [] then None
         else (case scanExponent r2 of
                 (ex, r3) \<Rightarrow> Some (ip @ fp, ex - int (length fp), r3)))"

text \<open>
  \<open>Number(value)\<close> for a string (StringToNumber): the trimmed text is empty (zero), a
  hexadecimal, octal or binary integer literal, or an optionally signed decimal literal or
  "Infinity"; anything else is \<open>NaN\<close>.
\<close>

definition js_Number :: "string \<Rightarrow> jsnum" where
  "js_Number s =
     (let t = trim s in
      if t = [] then Dec 0 0
      else if length t > 2 \<and> hd t = CHR ''0'' \<and> t ! 1 \<in> {CHR ''x'', CHR ''X''} then
        (if list_all (\<lambda>c. radixDigit 16 c \<noteq> None) (drop 2 t)
         then decOfInt False (natOfRadix 16 (drop 2 t)) else NaN)
      else if length t > 2 \<and> hd t = CHR ''0'' \<and> t ! 1 \<in> {CHR ''o'', CHR ''O''} then
        (if list_all (\<lambda>c. radixDigit 8 c \<noteq> None) (drop 2 t)
         then decOfInt False (natOfRadix 8 (drop 2 t)) else NaN)
      else if length t > 2 \<and> hd t = CHR ''0'' \<and> t ! 1 \<in> {CHR ''b'', CHR ''B''} then
        (if list_all (\<lambda>c. radixDigit 2 c \<noteq> None) (drop 2 t)
         then decOfInt False (natOfRadix 2 (drop 2 t)) else NaN)
      else
        (let negative = (hd t = CHR ''-'');
             u = (if hd t = CHR ''-'' \<or> hd t = CHR ''+'' then tl t else t)
         in if u = ''Infinity'' then (if negative then NegInfinity else PosInfinity)
            else (case scanDecimal u of
                    None \<Rightarrow> NaN
                  | Some (ds, ex, r) \<Rightarrow> if r = [] then mkDec negative ds ex else NaN)))"

text \<open>\<open>Number.isInteger\<close> and the global \<open>isNaN\<close>, on a number.\<close>

definition Number_isInteger :: "jsnum \<Rightarrow> bool" where
  "Number_isInteger n = (case n of Dec m e \<Rightarrow> m = 0 \<or> 0 \<le> e | _ \<Rightarrow> False)"

definition js_isNaN :: "jsnum \<Rightarrow> bool" where
  "js_isNaN n = (n = NaN)"

text \<open>
  \<open>Number.parseInt(value)\<close> without a radix: leading white space is skipped, a sign is
  read, "0x" selects radix 16, and the longest run of digits of the radix is the result;
  what follows the digits is ignored. No digit at all gives \<open>NaN\<close>.
\<close>

definition Number_parseInt :: "string \<Rightarrow> jsnum" where
  "Number_parseInt s =
     (let t = trimStart s;
          negative = (t \<noteq> [] \<and> hd t = CHR ''-'');
          u = (if t \<noteq> [] \<and> (hd t = CHR ''-'' \<or> hd t = CHR ''+'') then tl t else t);
          hex = (length u \<ge> 2 \<and> hd u = CHR ''0'' \<and> u ! 1 \<in> {CHR ''x'', CHR ''X''});
          radix = (if hex then 16 else 10);
          v = (if hex then drop 2 u else u);
          ds = takeWhile (\<lambda>c. radixDigit radix c \<noteq> None) v
      in if ds = [] then NaN else decOfInt negative (natOfRadix radix ds))"

text \<open>
  \<open>Number.parseFloat(value)\<close>: leading white space is skipped and the longest prefix that
  is a decimal literal (or "Infinity") is the result; \<open>NaN\<close> when there is none.
\<close>

definition Number_parseFloat :: "string \<Rightarrow> jsnum" where
  "Number_parseFloat s =
     (let t = trimStart s;
          negative = (t \<noteq> [] \<and> hd t = CHR ''-'');
          u = (if t \<noteq> [] \<and> (hd t = CHR ''-'' \<or> hd t = CHR ''+'') then tl t else t)
      in if prefix ''Infinity'' u then (if negative then NegInfinity else PosInfinity)
         else (case scanDecimal u of
                 None \<Rightarrow> NaN
               | Some (ds, ex, r) \<Rightarrow> mkDec negative ds ex))"

text \<open>The rational value of a finite number, for reading results.\<close>

definition numValue :: "jsnum \<Rightarrow> rat option" where
  "numValue n =
     (case n of
        Dec m e \<Rightarrow> Some (if 0 \<le> e then of_int (m * 10 ^ nat e) else of_int m / of_int (10 ^ nat (- e)))
      | _ \<Rightarrow> None)"

section \<open>JSON values, \<open>JSON.parse\<close> and \<open>JSON.stringify\<close>\<close>

text \<open>
  The JavaScript values the program handles. An object is the list of its own properties
  in insertion order. \<open>JNative\<close> stands for a built-in member inherited from
  \<open>Object.prototype\<close> (such as the function \<open>toString\<close>).
\<close>

datatype jsvalue =
  JUndefined | JNull | JBool bool | JNum jsnum | JStr string
  | JArray "jsvalue list" | JObject "(string \<times> jsvalue) list" | JNative

datatype token =
  TLBracket | TRBracket | TLBrace | TRBrace | TComma | TColon
  | TNull | TTrue | TFalse | TString string | TNumber jsnum

definition isJsonWs :: "char \<Rightarrow> bool" where
  "isJsonWs c = ((of_char c :: nat) \<in> {9, 10, 13, 32})"

definition isHexDigit :: "char \<Rightarrow> bool" where
  "isHexDigit c = (radixDigit 16 c \<noteq> None)"

definition simpleEscape :: "char \<Rightarrow> char option" where
  "simpleEscape e =
     (if e = CHR 0x22 then Some (CHR 0x22)
      else if e = CHR 0x5C then Some (CHR 0x5C)
      else if e = CHR ''/'' then Some (CHR ''/'')
      else if e = CHR ''b'' then Some (CHR 0x08)
      else if e = CHR ''f'' then Some (CHR 0x0C)
      else if e = CHR ''n'' then Some (CHR 0x0A)
      else if e = CHR ''r'' then Some (CHR 0x0D)
      else if e = CHR ''t'' then Some (CHR 0x09)
      else None)"

text \<open>
  The characters of a JSON string after its opening quote, up to the closing quote: the
  string denoted and the text that follows. A control character, an unknown escape or a
  missing closing quote is a syntax error. An escape \<open>\uXXXX\<close> denotes the code unit
  \<open>XXXX\<close>; the model holds code units below 256.
\<close>

fun scanString :: "string \<Rightarrow> (string \<times> string) option" where
  "scanString [] = None"
| "scanString (c # cs) =
     (if c = CHR 0x22 then Some ([], cs)
      else if c = CHR 0x5C then
        (case cs of
           [] \<Rightarrow> None
         | e # r \<Rightarrow>
             if e = CHR ''u'' then
               (if length r \<ge> 4 \<and> list_all isHexDigit (take 4 r)
                then map_option (\<lambda>(str, rest). (char_of (natOfRadix 16 (take 4 r)) # str, rest))
                       (scanString (drop 4 r))
                else None)
             else (case simpleEscape e of
                     None \<Rightarrow> None
                   | Some ch \<Rightarrow> map_option (\<lambda>(str, rest). (ch # str, rest)) (scanString r)))
      else if (of_char c :: nat) < 32 then None
      else map_option (\<lambda>(str, rest). (c # str, rest)) (scanString cs))"

text \<open>
  A JSON number: an optional minus, an integer part without a leading zero, an optional
  fraction with at least one digit and an optional exponent with at least one digit.
\<close>

definition scanJsonNumber :: "string \<Rightarrow> (jsnum \<times> string) option" where
  "scanJsonNumber s =
     (let negative = (s \<noteq> [] \<and> hd s = CHR ''-'');
          u = (if negative then tl s else s);
          ip = takeWhile isDigit u;
          r1 = dropWhile isDigit u;
          dot = (r1 \<noteq> [] \<and> hd r1 = CHR ''.'');
          fp = (if dot then takeWhile isDigit (tl r1) else []);
          r2 = (if dot then dropWhile isDigit (tl r1) else r1);
          hasExp = (r2 \<noteq> [] \<and> (hd r2 = CHR ''e'' \<or> hd r2 = CHR ''E''))
      in if ip = [] \<or> (hd ip = CHR ''0'' \<and> length ip > 1) then None
         else if dot \<and> fp = [] then None
         else if hasExp \<and> snd (scanExponent r2) = r2 then None
         else (case scanExponent r2 of
                 (ex, r3) \<Rightarrow> Some (mkDec negative (ip @ fp) (ex - int (length fp)), r3)))"

lemma scanString_length: "scanString s = Some (str, rest) \<Longrightarrow> length rest < Suc (length s)"
proof (induction s arbitrary: str rest rule: scanString.induct)
  case 1
  then show ?case by simp
next
  case (2 c cs)
  show ?case
  proof (cases "c = CHR 0x22")
    case True
    with "2.prems" show ?thesis by simp
  next
    case notq: False
    show ?thesis
    proof (cases "c = CHR 0x5C")
      case True
      with notq "2.prems" "2.IH"(1,2) show ?thesis
        by (fastforce split: list.splits if_splits option.splits)
    next
      case False
      with notq "2.prems" "2.IH"(3) show ?thesis
        by (fastforce split: if_splits)
    qed
  qed
qed

lemma scanExponent_length: "length (snd (scanExponent s)) \<le> length s"
  by (auto simp: scanExponent_def Let_def split: list.splits
      intro: le_trans [OF length_dropWhile_le])

lemma scanJsonNumber_length:
  "scanJsonNumber s = Some (n, rest) \<Longrightarrow> s \<noteq> [] \<Longrightarrow> length rest < length s"
proof -
  assume a: "scanJsonNumber s = Some (n, rest)" and ne: "s \<noteq> []"
  define u where "u = (if s \<noteq> [] \<and> hd s = CHR ''-'' then tl s else s)"
  define r1 where "r1 = dropWhile isDigit u"
  define r2 where "r2 = (if r1 \<noteq> [] \<and> hd r1 = CHR ''.'' then dropWhile isDigit (tl r1) else r1)"
  from a have ip: "takeWhile isDigit u \<noteq> []"
    by (auto simp: scanJsonNumber_def Let_def u_def split: if_splits)
  from a have rest: "rest = snd (scanExponent r2)"
    by (auto simp: scanJsonNumber_def Let_def u_def r1_def r2_def split: if_splits prod.splits)
  have "length r1 < length u"
    using ip unfolding r1_def
    by (metis length_append less_add_same_cancel2 length_greater_0_conv takeWhile_dropWhile_id)
  moreover have "length r2 \<le> length r1"
    unfolding r2_def
    by (auto intro: le_trans [OF length_dropWhile_le])
  moreover have "length u \<le> length s"
    unfolding u_def by simp
  ultimately show ?thesis
    using scanExponent_length [of r2] rest by simp
qed

text \<open>The tokens of a JSON text, or \<open>None\<close> for a lexical error.\<close>

function tokenize :: "string \<Rightarrow> token list option" where
  "tokenize [] = Some []"
| "tokenize (c # cs) =
     (if isJsonWs c then tokenize cs
      else if c = CHR ''['' then map_option ((#) TLBracket) (tokenize cs)
      else if c = CHR '']'' then map_option ((#) TRBracket) (tokenize cs)
      else if c = CHR ''{'' then map_option ((#) TLBrace) (tokenize cs)
      else if c = CHR ''}'' then map_option ((#) TRBrace) (tokenize cs)
      else if c = CHR '','' then map_option ((#) TComma) (tokenize cs)
      else if c = CHR '':'' then map_option ((#) TColon) (tokenize cs)
      else if c = CHR 0x22 then
        (case scanString cs of
           None \<Rightarrow> None
         | Some (str, rest) \<Rightarrow> map_option ((#) (TString str)) (tokenize rest))
      else if c = CHR ''-'' \<or> isDigit c then
        (case scanJsonNumber (c # cs) of
           None \<Rightarrow> None
         | Some (n, rest) \<Rightarrow> map_option ((#) (TNumber n)) (tokenize rest))
      else if prefix ''null'' (c # cs) then map_option ((#) TNull) (tokenize (drop 3 cs))
      else if prefix ''true'' (c # cs) then map_option ((#) TTrue) (tokenize (drop 3 cs))
      else if prefix ''false'' (c # cs) then map_option ((#) TFalse) (tokenize (drop 4 cs))
      else None)"
  by pat_completeness auto
termination
proof (relation "measure length", goal_cases)
  case 1
  then show ?case by simp
next
  case (9 c cs x2 x y)
  then show ?case using scanString_length [of cs x y] by simp
next
  case (10 c cs x2 x y)
  then show ?case using scanJsonNumber_length [of "c # cs" x y] by simp
qed auto

text \<open>
  The parser over tokens: a stack of open arrays and objects, and what may come next.
  \<open>objPut\<close> defines a property: a repeated key keeps its place and takes the later value.
\<close>

fun objPut :: "(string \<times> jsvalue) list \<Rightarrow> string \<Rightarrow> jsvalue \<Rightarrow> (string \<times> jsvalue) list" where
  "objPut [] k v = [(k, v)]"
| "objPut (p # ps) k v = (if fst p = k then (k, v) # ps else p # objPut ps k v)"

datatype frame = ArrFrame "jsvalue list" | ObjFrame "(string \<times> jsvalue) list" "string option"

datatype pstate =
  PValue | PFirst | PKeyFirst | PKey | PColon | PAfter | PDone jsvalue

fun complete :: "jsvalue \<Rightarrow> frame list \<Rightarrow> (frame list \<times> pstate) option" where
  "complete v [] = Some ([], PDone v)"
| "complete v (ArrFrame es # st) = Some (ArrFrame (es @ [v]) # st, PAfter)"
| "complete v (ObjFrame ms (Some k) # st) = Some (ObjFrame (objPut ms k v) None # st, PAfter)"
| "complete v (ObjFrame ms None # st) = None"

definition startValue :: "frame list \<Rightarrow> token \<Rightarrow> (frame list \<times> pstate) option" where
  "startValue st t =
     (case t of
        TLBracket \<Rightarrow> Some (ArrFrame [] # st, PFirst)
      | TLBrace \<Rightarrow> Some (ObjFrame [] None # st, PKeyFirst)
      | TNull \<Rightarrow> complete JNull st
      | TTrue \<Rightarrow> complete (JBool True) st
      | TFalse \<Rightarrow> complete (JBool False) st
      | TString str \<Rightarrow> complete (JStr str) st
      | TNumber n \<Rightarrow> complete (JNum n) st
      | _ \<Rightarrow> None)"

definition startKey :: "frame list \<Rightarrow> token \<Rightarrow> (frame list \<times> pstate) option" where
  "startKey st t =
     (case (t, st) of
        (TString k, ObjFrame ms None # rest) \<Rightarrow> Some (ObjFrame ms (Some k) # rest, PColon)
      | _ \<Rightarrow> None)"

definition closeArray :: "frame list \<Rightarrow> (frame list \<times> pstate) option" where
  "closeArray st = (case st of ArrFrame es # rest \<Rightarrow> complete (JArray es) rest | _ \<Rightarrow> None)"

definition closeObject :: "frame list \<Rightarrow> (frame list \<times> pstate) option" where
  "closeObject st =
     (case st of ObjFrame ms None # rest \<Rightarrow> complete (JObject ms) rest | _ \<Rightarrow> None)"

fun pstep :: "frame list \<times> pstate \<Rightarrow> token \<Rightarrow> (frame list \<times> pstate) option" where
  "pstep (st, PValue) t = startValue st t"
| "pstep (st, PFirst) t = (if t = TRBracket then closeArray st else startValue st t)"
| "pstep (st, PKeyFirst) t = (if t = TRBrace then closeObject st else startKey st t)"
| "pstep (st, PKey) t = startKey st t"
| "pstep (st, PColon) t = (if t = TColon then Some (st, PValue) else None)"
| "pstep (st, PAfter) t =
     (if t = TRBracket then closeArray st
      else if t = TRBrace then closeObject st
      else if t = TComma then
        (case st of
           ArrFrame es # rest \<Rightarrow> Some (st, PValue)
         | ObjFrame ms None # rest \<Rightarrow> Some (st, PKey)
         | _ \<Rightarrow> None)
      else None)"
| "pstep (st, PDone v) t = None"

fun prun :: "frame list \<times> pstate \<Rightarrow> token list \<Rightarrow> (frame list \<times> pstate) option" where
  "prun cfg [] = Some cfg"
| "prun cfg (t # ts) = (case pstep cfg t of None \<Rightarrow> None | Some cfg' \<Rightarrow> prun cfg' ts)"

text \<open>\<open>JSON.parse(text)\<close>: the value, or \<open>None\<close> when it throws a SyntaxError.\<close>

definition JSON_parse :: "string \<Rightarrow> jsvalue option" where
  "JSON_parse text =
     (case tokenize text of
        None \<Rightarrow> None
      | Some ts \<Rightarrow>
          (case prun ([], PValue) ts of
             Some ([], PDone v) \<Rightarrow> Some v
           | _ \<Rightarrow> None))"

text \<open>
  \<open>Number.prototype.toString\<close> (radix 10) of a finite number \<open>Dec m e\<close>: with \<open>k\<close> digits
  and \<open>n = k + e\<close>, plain digits when \<open>k \<le> n \<le> 21\<close>, a decimal point inside the digits
  when \<open>0 < n < k\<close>, leading "0.0..." when \<open>-6 < n \<le> 0\<close>, and exponent notation otherwise.
\<close>

function digitsOfNat :: "nat \<Rightarrow> string" where
  "digitsOfNat n =
     (if n < 10 then [char_of (48 + n)] else digitsOfNat (n div 10) @ [char_of (48 + n mod 10)])"
  by pat_completeness auto
termination
  by (relation "measure (\<lambda>n. n)") auto

definition numToString :: "jsnum \<Rightarrow> string" where
  "numToString x =
     (case x of
        NaN \<Rightarrow> ''NaN''
      | PosInfinity \<Rightarrow> ''Infinity''
      | NegInfinity \<Rightarrow> ''-Infinity''
      | Dec m e \<Rightarrow>
          if m = 0 then ''0''
          else
            (let sign = (if m < 0 then ''-'' else []);
                 ds = digitsOfNat (nat \<bar>m\<bar>);
                 k = int (length ds);
                 n = k + e
             in if k \<le> n \<and> n \<le> 21 then sign @ ds @ replicate (nat (n - k)) (CHR ''0'')
                else if 0 < n \<and> n \<le> 21 then sign @ take (nat n) ds @ ''.'' @ drop (nat n) ds
                else if - 6 < n \<and> n \<le> 0
                  then sign @ ''0.'' @ replicate (nat (- n)) (CHR ''0'') @ ds
                else sign @ [hd ds] @ (if k = 1 then [] else ''.'' @ tl ds) @ ''e''
                       @ (if 0 \<le> n - 1 then ''+'' else ''-'') @ digitsOfNat (nat \<bar>n - 1\<bar>)))"

text \<open>
  QuoteJSONString: the quote, the backslash and the control characters are escaped.
\<close>

definition hexChar :: "nat \<Rightarrow> char" where
  "hexChar n = (if n < 10 then char_of (48 + n) else char_of (87 + n))"

definition escapeChar :: "char \<Rightarrow> string" where
  "escapeChar c =
     (if c = CHR 0x22 then [CHR 0x5C, CHR 0x22]
      else if c = CHR 0x5C then [CHR 0x5C, CHR 0x5C]
      else if c = CHR 0x08 then [CHR 0x5C, CHR ''b'']
      else if c = CHR 0x0C then [CHR 0x5C, CHR ''f'']
      else if c = CHR 0x0A then [CHR 0x5C, CHR ''n'']
      else if c = CHR 0x0D then [CHR 0x5C, CHR ''r'']
      else if c = CHR 0x09 then [CHR 0x5C, CHR ''t'']
      else if (of_char c :: nat) < 32
        then [CHR 0x5C, CHR ''u'', CHR ''0'', CHR ''0'',
              hexChar ((of_char c :: nat) div 16), hexChar ((of_char c :: nat) mod 16)]
      else [c])"

definition quoteJSON :: "string \<Rightarrow> string" where
  "quoteJSON str = CHR 0x22 # concat (map escapeChar str) @ [CHR 0x22]"

fun joinWith :: "string \<Rightarrow> string list \<Rightarrow> string" where
  "joinWith sep [] = []"
| "joinWith sep [x] = x"
| "joinWith sep (x # y # ys) = x @ sep @ joinWith sep (y # ys)"

text \<open>
  \<open>JSON.stringify(value)\<close>: \<open>None\<close> is the result \<open>undefined\<close>. A number that is not
  finite becomes \<open>null\<close>; an array element without a JSON text becomes \<open>null\<close>; an
  object property without one is left out.
\<close>

fun JSON_stringify :: "jsvalue \<Rightarrow> string option" where
  "JSON_stringify JUndefined = None"
| "JSON_stringify JNative = None"
| "JSON_stringify JNull = Some ''null''"
| "JSON_stringify (JBool b) = Some (if b then ''true'' else ''false'')"
| "JSON_stringify (JNum x) = Some (case x of Dec m e \<Rightarrow> numToString x | _ \<Rightarrow> ''null'')"
| "JSON_stringify (JStr str) = Some (quoteJSON str)"
| "JSON_stringify (JArray xs) =
     Some (''['' @ joinWith '',''
             (map (\<lambda>x. case JSON_stringify x of None \<Rightarrow> ''null'' | Some t \<Rightarrow> t) xs) @ '']'')"
| "JSON_stringify (JObject ms) =
     Some (''{'' @ joinWith '',''
             (concat (map (\<lambda>kv. case JSON_stringify (snd kv) of
                                  None \<Rightarrow> []
                                | Some t \<Rightarrow> [quoteJSON (fst kv) @ '':'' @ t]) ms)) @ ''}'')"

section \<open>Dates\<close>

text \<open>
  A \<open>Date\<close> object holds a time value in milliseconds since the epoch, of magnitude at
  most 8 640 000 000 000 000, or is an Invalid Date.
\<close>

datatype date = Date int | InvalidDate

definition timeClip :: "int \<Rightarrow> date" where
  "timeClip t = (if \<bar>t\<bar> \<le> 8640000000000000 then Date t else InvalidDate)"

text \<open>
  The calendar of ECMAScript: \<open>DayFromYear\<close>, the year of a day number (the year \<open>y\<close> with
  \<open>DayFromYear(y) \<le> day < DayFromYear(y + 1)\<close>, found next to an estimate from the mean
  length of a year), \<open>InLeapYear\<close> (the number of days of the year beyond 365: 1 in a leap
  year and 0 otherwise), and the day within the year at which each month starts.
\<close>

definition dayFromYear :: "int \<Rightarrow> int" where
  "dayFromYear y =
     365 * (y - 1970) + (y - 1969) div 4 - (y - 1901) div 100 + (y - 1601) div 400"

definition yearFromDay :: "int \<Rightarrow> int" where
  "yearFromDay z =
     (let y0 = 1970 + (400 * z) div 146097 in
      if dayFromYear (y0 + 1) \<le> z then y0 + 1
      else if dayFromYear y0 \<le> z then y0
      else y0 - 1)"

definition inLeapYear :: "int \<Rightarrow> int" where
  "inLeapYear y = dayFromYear (y + 1) - dayFromYear y - 365"

definition monthStart :: "int \<Rightarrow> int \<Rightarrow> int" where
  "monthStart l m =
     (if m \<le> 1 then 0 else if m = 2 then 31 else if m = 3 then 59 + l
      else if m = 4 then 90 + l else if m = 5 then 120 + l else if m = 6 then 151 + l
      else if m = 7 then 181 + l else if m = 8 then 212 + l else if m = 9 then 243 + l
      else if m = 10 then 273 + l else if m = 11 then 304 + l
      else if m = 12 then 334 + l else 365 + l)"

definition monthFromDayInYear :: "int \<Rightarrow> int \<Rightarrow> int" where
  "monthFromDayInYear leap d =
     (if d < monthStart leap 2 then 1 else if d < monthStart leap 3 then 2
      else if d < monthStart leap 4 then 3 else if d < monthStart leap 5 then 4
      else if d < monthStart leap 6 then 5 else if d < monthStart leap 7 then 6
      else if d < monthStart leap 8 then 7 else if d < monthStart leap 9 then 8
      else if d < monthStart leap 10 then 9 else if d < monthStart leap 11 then 10
      else if d < monthStart leap 12 then 11 else 12)"

definition msPerDay :: int where
  "msPerDay = 86400000"

definition pad :: "nat \<Rightarrow> nat \<Rightarrow> string" where
  "pad width n = replicate (width - length (digitsOfNat n)) (CHR ''0'') @ digitsOfNat n"

text \<open>
  \<open>Date.prototype.toISOString\<close> of a time value: \<open>YYYY-MM-DDTHH:mm:ss.sssZ\<close>, the year with
  a sign and six digits outside 0..9999.
\<close>

definition toISOString :: "int \<Rightarrow> string" where
  "toISOString t =
     (let day = t div msPerDay;
          ms = t mod msPerDay;
          y = yearFromDay day;
          leap = inLeapYear y;
          dayInYear = day - dayFromYear y;
          m = monthFromDayInYear leap dayInYear;
          d = dayInYear - monthStart leap m + 1
      in (if 0 \<le> y \<and> y \<le> 9999 then pad 4 (nat y)
          else (if y < 0 then ''-'' else ''+'') @ pad 6 (nat \<bar>y\<bar>))
         @ ''-'' @ pad 2 (nat m) @ ''-'' @ pad 2 (nat d)
         @ ''T'' @ pad 2 (nat (ms div 3600000)) @ '':'' @ pad 2 (nat (ms mod 3600000 div 60000))
         @ '':'' @ pad 2 (nat (ms mod 60000 div 1000)) @ ''.'' @ pad 3 (nat (ms mod 1000)) @ ''Z'')"

text \<open>
  \<open>new Date(text)\<close> for a text in the format that \<open>toISOString\<close> writes. ECMAScript
  leaves the reading of other texts to shorter forms of the format and to the
  implementation; the model reads them as Invalid Date.
\<close>

definition allDigits :: "string \<Rightarrow> bool" where
  "allDigits str = list_all isDigit str"

definition parseISOTail :: "bool \<Rightarrow> string \<Rightarrow> string \<Rightarrow> date" where
  "parseISOTail negative ys r =
     (if length r = 20 \<and> allDigits ys
         \<and> r ! 0 = CHR ''-'' \<and> allDigits (take 2 (drop 1 r))
         \<and> r ! 3 = CHR ''-'' \<and> allDigits (take 2 (drop 4 r))
         \<and> r ! 6 = CHR ''T'' \<and> allDigits (take 2 (drop 7 r))
         \<and> r ! 9 = CHR '':'' \<and> allDigits (take 2 (drop 10 r))
         \<and> r ! 12 = CHR '':'' \<and> allDigits (take 2 (drop 13 r))
         \<and> r ! 15 = CHR ''.'' \<and> allDigits (take 3 (drop 16 r))
         \<and> r ! 19 = CHR ''Z''
      then
        (let y = (if negative then - int (natOfDigits ys) else int (natOfDigits ys));
             m = int (natOfDigits (take 2 (drop 1 r)));
             d = int (natOfDigits (take 2 (drop 4 r)));
             hh = int (natOfDigits (take 2 (drop 7 r)));
             mm = int (natOfDigits (take 2 (drop 10 r)));
             ss = int (natOfDigits (take 2 (drop 13 r)));
             ms = int (natOfDigits (take 3 (drop 16 r)));
             leap = inLeapYear y
         in if 1 \<le> m \<and> m \<le> 12 \<and> 1 \<le> d \<and> d \<le> monthStart leap (m + 1) - monthStart leap m
               \<and> hh \<le> 23 \<and> mm \<le> 59 \<and> ss \<le> 59 \<and> \<not> (negative \<and> y = 0)
            then timeClip ((dayFromYear y + monthStart leap m + d - 1) * msPerDay
                           + hh * 3600000 + mm * 60000 + ss * 1000 + ms)
            else InvalidDate)
      else InvalidDate)"

definition parseISO :: "string \<Rightarrow> date" where
  "parseISO str =
     (if str \<noteq> [] \<and> (hd str = CHR ''+'' \<or> hd str = CHR ''-'')
      then (if length str = 27 then parseISOTail (hd str = CHR ''-'') (take 6 (tl str)) (drop 7 str)
            else InvalidDate)
      else (if length str = 24 then parseISOTail False (take 4 str) (drop 4 str)
            else InvalidDate))"

text \<open>
  \<open>new Date(value)\<close> for a value read from JSON: \<open>null\<close> is the epoch, \<open>undefined\<close> an
  Invalid Date, a number a time value (its integer part), a string a date text; an array
  or an object is converted to a string first, which the model reads as no date text.
\<close>

definition newDate :: "jsvalue \<Rightarrow> date" where
  "newDate v =
     (case v of
        JNull \<Rightarrow> Date 0
      | JBool b \<Rightarrow> Date (if b then 1 else 0)
      | JNum x \<Rightarrow> (case x of
                     Dec m e \<Rightarrow> (if 0 \<le> e then timeClip (m * 10 ^ nat e)
                                 else timeClip (sgn m * (\<bar>m\<bar> div 10 ^ nat (- e))))
                   | _ \<Rightarrow> InvalidDate)
      | JStr str \<Rightarrow> parseISO str
      | _ \<Rightarrow> InvalidDate)"

text \<open>\<open>Date.prototype.toJSON\<close>: the ISO text, or \<open>null\<close> for an Invalid Date.\<close>

definition dateToJSON :: "date \<Rightarrow> jsvalue" where
  "dateToJSON d = (case d of Date t \<Rightarrow> JStr (toISOString t) | InvalidDate \<Rightarrow> JNull)"

section \<open>Pipelines (types/pipeline.ts) and the catalog store (context/pipeline-store.tsx)\<close>

text \<open>
  A parameter type is one of the words "int", "number", "float", "string", "list",
  "dict". The optional \<open>value\<close> of a parameter is any value; \<open>JUndefined\<close> when absent.
  The store and the pages read and write the creation time of a pipeline as the property
  \<open>createdAt\<close>. The fields \<open>id\<close>, \<open>value\<close> and \<open>createdAt\<close> carry a prime here.
\<close>

datatype ParameterType = T_int | T_number | T_float | T_string | T_list | T_dict

record PipelineParameter =
  key :: string
  type :: ParameterType
  value' :: jsvalue

record Pipeline =
  id' :: string
  name :: string
  description :: string
  createdAt' :: date
  parameters :: "PipelineParameter list"

definition typeName :: "ParameterType \<Rightarrow> string" where
  "typeName t =
     (case t of T_int \<Rightarrow> ''int'' | T_number \<Rightarrow> ''number'' | T_float \<Rightarrow> ''float''
      | T_string \<Rightarrow> ''string'' | T_list \<Rightarrow> ''list'' | T_dict \<Rightarrow> ''dict'')"

definition typeOfName :: "string \<Rightarrow> ParameterType option" where
  "typeOfName w =
     (if w = ''int'' then Some T_int else if w = ''number'' then Some T_number
      else if w = ''float'' then Some T_float else if w = ''string'' then Some T_string
      else if w = ''list'' then Some T_list else if w = ''dict'' then Some T_dict
      else None)"

text \<open>
  The JavaScript objects that the records stand for, with their properties in the order
  the pages create them; \<open>JSON.stringify\<close> writes a \<open>Date\<close> through \<open>toJSON\<close>.
\<close>

definition parameterToJS :: "PipelineParameter \<Rightarrow> jsvalue" where
  "parameterToJS q =
     JObject [(''key'', JStr (key q)), (''type'', JStr (typeName (type q))), (''value'', value' q)]"

definition pipelineToJS :: "Pipeline \<Rightarrow> jsvalue" where
  "pipelineToJS p =
     JObject [(''id'', JStr (id' p)), (''name'', JStr (name p)),
              (''description'', JStr (description p)),
              (''createdAt'', dateToJSON (createdAt' p)),
              (''parameters'', JArray (map parameterToJS (parameters p)))]"

text \<open>
  Reading a parsed value back as a record. \<open>getProp\<close> is a property access: a missing
  property reads as \<open>undefined\<close>. A value that has not the shape of the record has no
  reading.
\<close>

definition getProp :: "(string \<times> jsvalue) list \<Rightarrow> string \<Rightarrow> jsvalue" where
  "getProp ms k = (case map_of ms k of None \<Rightarrow> JUndefined | Some v \<Rightarrow> v)"

definition decodeParameter :: "jsvalue \<Rightarrow> PipelineParameter option" where
  "decodeParameter v =
     (case v of
        JObject ms \<Rightarrow>
          (case (getProp ms ''key'', getProp ms ''type'') of
             (JStr k, JStr w) \<Rightarrow>
               (case typeOfName w of
                  None \<Rightarrow> None
                | Some t \<Rightarrow> Some \<lparr>key = k, type = t, value' = getProp ms ''value''\<rparr>)
           | _ \<Rightarrow> None)
      | _ \<Rightarrow> None)"

fun allSome :: "'a option list \<Rightarrow> 'a list option" where
  "allSome [] = Some []"
| "allSome (x # xs) =
     (case x of None \<Rightarrow> None
      | Some y \<Rightarrow> (case allSome xs of None \<Rightarrow> None | Some ys \<Rightarrow> Some (y # ys)))"

text \<open>
  One step of the loader: \<open>{...pipeline, createdAt: new Date(pipeline.createdAt)}\<close>.
\<close>

definition revivePipeline :: "jsvalue \<Rightarrow> Pipeline option" where
  "revivePipeline v =
     (case v of
        JObject ms \<Rightarrow>
          (case (getProp ms ''id'', getProp ms ''name'', getProp ms ''description'',
                 getProp ms ''parameters'') of
             (JStr i, JStr n, JStr d, JArray qs) \<Rightarrow>
               (case allSome (map decodeParameter qs) of
                  None \<Rightarrow> None
                | Some ps \<Rightarrow>
                    Some \<lparr>id' = i, name = n, description = d,
                          createdAt' = newDate (getProp ms ''createdAt''), parameters = ps\<rparr>)
           | _ \<Rightarrow> None)
      | _ \<Rightarrow> None)"

text \<open>
  The loading effect of \<open>PipelineStoreProvider\<close>, on the item "pipelines" of
  \<open>localStorage\<close>. Nothing is loaded when the item is missing or empty, when
  \<open>JSON.parse\<close> throws, or when the parsed value is not an array (calling \<open>map\<close> on it
  throws); the error is caught and logged. \<open>IllTyped\<close>: the text is a JSON array, but not
  of pipeline objects, and the state would hold values outside the type \<open>Pipeline[]\<close>.
\<close>

datatype load_result = Loaded "Pipeline list" | NotLoaded | IllTyped

definition loadPipelines :: "string option \<Rightarrow> load_result" where
  "loadPipelines storedPipelines =
     (case storedPipelines of
        None \<Rightarrow> NotLoaded
      | Some text \<Rightarrow>
          if text = [] then NotLoaded
          else (case JSON_parse text of
                  Some (JArray parsedPipelines) \<Rightarrow>
                    (case allSome (map revivePipeline parsedPipelines) of
                       None \<Rightarrow> IllTyped
                     | Some pipelinesWithDates \<Rightarrow> Loaded pipelinesWithDates)
                | _ \<Rightarrow> NotLoaded))"

text \<open>
  The store: the state \<open>pipelines\<close> and the item of \<open>localStorage\<close>. The saving effect
  runs after every change of \<open>pipelines\<close> and writes the whole list:
  \<open>localStorage.setItem("pipelines", JSON.stringify(pipelines))\<close>.
\<close>

record PipelineStore =
  pipelines :: "Pipeline list"
  storage :: "string option"

definition serialize :: "Pipeline list \<Rightarrow> string option" where
  "serialize ps = JSON_stringify (JArray (map pipelineToJS ps))"

definition save :: "PipelineStore \<Rightarrow> PipelineStore" where
  "save s = s\<lparr>storage := serialize (pipelines s)\<rparr>"

definition addPipeline :: "Pipeline \<Rightarrow> PipelineStore \<Rightarrow> PipelineStore" where
  "addPipeline pipeline s = save (s\<lparr>pipelines := pipelines s @ [pipeline]\<rparr>)"

definition updatePipeline :: "Pipeline \<Rightarrow> PipelineStore \<Rightarrow> PipelineStore" where
  "updatePipeline updatedPipeline s =
     save (s\<lparr>pipelines :=
               map (\<lambda>pipeline. if id' pipeline = id' updatedPipeline then updatedPipeline
                                else pipeline) (pipelines s)\<rparr>)"

definition deletePipeline :: "string \<Rightarrow> PipelineStore \<Rightarrow> PipelineStore" where
  "deletePipeline i s =
     save (s\<lparr>pipelines := filter (\<lambda>pipeline. id' pipeline \<noteq> i) (pipelines s)\<rparr>)"

definition setPipelines :: "Pipeline list \<Rightarrow> PipelineStore \<Rightarrow> PipelineStore" where
  "setPipelines newPipelines s = save (s\<lparr>pipelines := newPipelines\<rparr>)"


section \<open>Values that survive storage\<close>









section \<open>The pipeline forms (app/new-pipeline/page.tsx, components/edit-pipeline-modal.tsx)\<close>

text \<open>
  \<open>validateForm\<close> is the same text in both forms. The error object \<open>newErrors\<close> has the
  keys "name", "description" and "param_<index>_key": the constructors of \<open>field\<close>. Its
  seven messages are the constructors of \<open>message\<close>, in the order of the source.
\<close>

datatype field = NameField | DescriptionField | ParamKeyField nat

datatype message =
  NomeObrigatorio | NomeCurto | NomeLongo | DescricaoLonga
  | ChaveObrigatoria | ChaveInvalida | ChaveUnica

text \<open>\<open>const keyRegex = /^[a-zA-Z_][a-zA-Z0-9_]*$/\<close>\<close>

definition isLetter :: "char \<Rightarrow> bool" where
  "isLetter c =
     ((97 \<le> (of_char c :: nat) \<and> (of_char c :: nat) \<le> 122)
      \<or> (65 \<le> (of_char c :: nat) \<and> (of_char c :: nat) \<le> 90))"

definition keyRegex_test :: "string \<Rightarrow> bool" where
  "keyRegex_test str =
     (case str of
        [] \<Rightarrow> False
      | c # cs \<Rightarrow> (isLetter c \<or> c = CHR ''_'')
                 \<and> list_all (\<lambda>d. isLetter d \<or> isDigit d \<or> d = CHR ''_'') cs)"

text \<open>
  The loop over the parameters, with the index, the error object and the set
  \<open>uniqueKeys\<close> as its state.
\<close>

fun validateParameters ::
  "nat \<Rightarrow> PipelineParameter list \<Rightarrow> (field \<rightharpoonup> message) \<times> string set
     \<Rightarrow> (field \<rightharpoonup> message) \<times> string set" where
  "validateParameters index [] st = st"
| "validateParameters index (param # rest) (newErrors, uniqueKeys) =
     validateParameters (Suc index) rest
       (if trim (key param) = [] then (newErrors(ParamKeyField index \<mapsto> ChaveObrigatoria), uniqueKeys)
        else if \<not> keyRegex_test (key param)
          then (newErrors(ParamKeyField index \<mapsto> ChaveInvalida), uniqueKeys)
        else if key param \<in> uniqueKeys
          then (newErrors(ParamKeyField index \<mapsto> ChaveUnica), uniqueKeys)
        else (newErrors, insert (key param) uniqueKeys))"

definition validateName :: "string \<Rightarrow> (field \<rightharpoonup> message) \<Rightarrow> (field \<rightharpoonup> message)" where
  "validateName nm newErrors =
     (if trim nm = [] then newErrors(NameField \<mapsto> NomeObrigatorio)
      else if length nm < 3 then newErrors(NameField \<mapsto> NomeCurto)
      else if length nm > 60 then newErrors(NameField \<mapsto> NomeLongo)
      else newErrors)"

definition validateDescription :: "string \<Rightarrow> (field \<rightharpoonup> message) \<Rightarrow> (field \<rightharpoonup> message)" where
  "validateDescription descr newErrors =
     (if length descr > 255 then newErrors(DescriptionField \<mapsto> DescricaoLonga) else newErrors)"

text \<open>
  \<open>validateForm\<close>: the errors it sets, and its result
  \<open>Object.keys(newErrors).length === 0\<close>.
\<close>

definition formErrors :: "string \<Rightarrow> string \<Rightarrow> PipelineParameter list \<Rightarrow> (field \<rightharpoonup> message)" where
  "formErrors nm descr pars =
     fst (validateParameters 0 pars
            (validateDescription descr (validateName nm Map.empty), {}))"

definition validateForm :: "string \<Rightarrow> string \<Rightarrow> PipelineParameter list \<Rightarrow> bool" where
  "validateForm nm descr pars = (dom (formErrors nm descr pars) = {})"

text \<open>
  The edit form: its state starts from the pipeline, every parameter value set to
  \<open>null\<close>; the parameters table adds, removes and edits rows. \<open>handleSave\<close> writes to the
  store when the form is valid (\<open>None\<close>: nothing is written).
\<close>

record EditForm =
  nameField :: string
  descriptionField :: string
  parametersField :: "PipelineParameter list"

definition openEditForm :: "Pipeline \<Rightarrow> EditForm" where
  "openEditForm pipeline =
     \<lparr>nameField = name pipeline, descriptionField = description pipeline,
      parametersField = map (\<lambda>param. param\<lparr>value' := JNull\<rparr>) (parameters pipeline)\<rparr>"

definition updatedPipelineOf :: "Pipeline \<Rightarrow> EditForm \<Rightarrow> Pipeline" where
  "updatedPipelineOf pipeline form =
     (let processedParams = map (\<lambda>param. param\<lparr>value' := JNull\<rparr>) (parametersField form)
      in pipeline\<lparr>name := nameField form, description := descriptionField form,
                  parameters := processedParams\<rparr>)"

definition handleSave :: "Pipeline \<Rightarrow> EditForm \<Rightarrow> PipelineStore \<Rightarrow> PipelineStore option" where
  "handleSave pipeline form s =
     (if validateForm (nameField form) (descriptionField form) (parametersField form)
      then Some (updatePipeline (updatedPipelineOf pipeline form) s)
      else None)"

definition handleDelete :: "Pipeline \<Rightarrow> PipelineStore \<Rightarrow> PipelineStore" where
  "handleDelete pipeline s = deletePipeline (id' pipeline) s"

text \<open>The parameters table: \<open>addParameter\<close>, \<open>removeParameter\<close>, \<open>updateParameter\<close>.\<close>

definition addParameter :: "PipelineParameter list \<Rightarrow> PipelineParameter list" where
  "addParameter pars = pars @ [\<lparr>key = [], type = T_string, value' = JNull\<rparr>]"

definition removeParameter :: "nat \<Rightarrow> PipelineParameter list \<Rightarrow> PipelineParameter list" where
  "removeParameter index pars = map snd (filter (\<lambda>(i, q). i \<noteq> index) (enumerate 0 pars))"

text \<open>
  The error \<open>validateForm\<close> sets for a parameter key, given the keys accepted before it.
\<close>

definition keyError :: "string set \<Rightarrow> string \<Rightarrow> message option" where
  "keyError earlier k =
     (if trim k = [] then Some ChaveObrigatoria
      else if \<not> keyRegex_test k then Some ChaveInvalida
      else if k \<in> earlier then Some ChaveUnica
      else None)"

text \<open>Sample pipelines for the concrete instances below.\<close>

definition sampleParameter :: "string \<Rightarrow> ParameterType \<Rightarrow> jsvalue \<Rightarrow> PipelineParameter" where
  "sampleParameter k t v = \<lparr>key = k, type = t, value' = v\<rparr>"

definition samplePipeline :: "string \<Rightarrow> PipelineParameter list \<Rightarrow> Pipeline" where
  "samplePipeline i pars =
     \<lparr>id' = i, name = ''etl'', description = [], createdAt' = Date 1700000000123,
      parameters = pars\<rparr>"

section \<open>The execution form (components/execution-form.tsx)\<close>

text \<open>
  The state \<open>values\<close> is an object that starts as \<open>{}\<close> and receives the texts typed by
  the user. \<open>values[param.key]\<close> is \<open>undefined\<close> when nothing was typed, unless the key
  names a member that every object inherits from \<open>Object.prototype\<close>, which is then
  what the access returns. An entry is what \<open>values[param.key]\<close> evaluates to.
\<close>

datatype entry = Undefined | Text string | Inherited

definition objectPrototypeNames :: "string list" where
  "objectPrototypeNames =
     [''constructor'', ''hasOwnProperty'', ''isPrototypeOf'', ''propertyIsEnumerable'',
      ''toLocaleString'', ''toString'', ''valueOf'', ''__proto__'', ''__defineGetter__'',
      ''__defineSetter__'', ''__lookupGetter__'', ''__lookupSetter__'']"

definition initialValues :: "string \<Rightarrow> entry" where
  "initialValues k = (if k \<in> set objectPrototypeNames then Inherited else Undefined)"

definition handleValueChange :: "string \<Rightarrow> string \<Rightarrow> (string \<Rightarrow> entry) \<Rightarrow> (string \<Rightarrow> entry)" where
  "handleValueChange k v values = values(k := Text v)"

text \<open>
  \<open>validateParameterValue\<close>: \<open>Inr ()\<close> when it returns, \<open>Inl\<close> the message of the error
  it throws. The four messages are the constructors of \<open>value_error\<close>, with the message of
  the mandatory check of \<open>validateValues\<close> first. \<open>Number(value)\<close> of an inherited member
  is \<open>NaN\<close>, and \<open>JSON.parse\<close> of one throws.
\<close>

datatype value_error =
  ValorObrigatorio | DeveSerInteiro | DeveSerNumero | DeveSerArray | DeveSerObjeto

definition toNumber :: "entry \<Rightarrow> jsnum" where
  "toNumber v = (case v of Text str \<Rightarrow> js_Number str | _ \<Rightarrow> NaN)"

definition parseEntry :: "entry \<Rightarrow> jsvalue option" where
  "parseEntry v = (case v of Text str \<Rightarrow> JSON_parse str | _ \<Rightarrow> None)"

definition isArray :: "jsvalue \<Rightarrow> bool" where
  "isArray v = (case v of JArray xs \<Rightarrow> True | _ \<Rightarrow> False)"

definition isPlainObject :: "jsvalue \<Rightarrow> bool" where
  "isPlainObject v = (case v of JObject ms \<Rightarrow> True | _ \<Rightarrow> False)"

definition validateParameterValue :: "string \<Rightarrow> entry \<Rightarrow> ParameterType \<Rightarrow> value_error + unit" where
  "validateParameterValue k v t =
     (case t of
        T_int \<Rightarrow> if \<not> Number_isInteger (toNumber v) then Inl DeveSerInteiro else Inr ()
      | T_number \<Rightarrow> if js_isNaN (toNumber v) then Inl DeveSerNumero else Inr ()
      | T_float \<Rightarrow> if js_isNaN (toNumber v) then Inl DeveSerNumero else Inr ()
      | T_list \<Rightarrow>
          (case parseEntry v of
             None \<Rightarrow> Inl DeveSerArray
           | Some parsed \<Rightarrow> if \<not> isArray parsed then Inl DeveSerArray else Inr ())
      | T_dict \<Rightarrow>
          (case parseEntry v of
             None \<Rightarrow> Inl DeveSerObjeto
           | Some parsed \<Rightarrow> if \<not> isPlainObject parsed then Inl DeveSerObjeto else Inr ())
      | T_string \<Rightarrow> Inr ())"

text \<open>
  \<open>validateValues\<close>: the loop over the parameters of the pipeline fills \<open>newErrors\<close>, an
  object keyed by parameter key; the result is \<open>Object.keys(newErrors).length === 0\<close>.
\<close>

definition validateOne :: "(string \<Rightarrow> entry) \<Rightarrow> PipelineParameter \<Rightarrow> (string \<rightharpoonup> value_error)
     \<Rightarrow> (string \<rightharpoonup> value_error)" where
  "validateOne values param newErrors =
     (let v = values (key param) in
      if v = Undefined \<or> v = Text [] then newErrors(key param \<mapsto> ValorObrigatorio)
      else (case validateParameterValue (key param) v (type param) of
              Inl err \<Rightarrow> newErrors(key param \<mapsto> err)
            | Inr u \<Rightarrow> newErrors))"

definition valueErrors :: "(string \<Rightarrow> entry) \<Rightarrow> PipelineParameter list \<Rightarrow> (string \<rightharpoonup> value_error)" where
  "valueErrors values pars = foldl (\<lambda>newErrors param. validateOne values param newErrors) Map.empty pars"

definition validateValues :: "(string \<Rightarrow> entry) \<Rightarrow> PipelineParameter list \<Rightarrow> bool" where
  "validateValues values pars = (dom (valueErrors values pars) = {})"

text \<open>
  \<open>processValues\<close>: the payload, an object keyed by parameter key. An entry that is
  \<open>undefined\<close> sets no property.
\<close>

definition entryValue :: "entry \<Rightarrow> jsvalue" where
  "entryValue v = (case v of Undefined \<Rightarrow> JUndefined | Text str \<Rightarrow> JStr str | Inherited \<Rightarrow> JNative)"

definition entryText :: "entry \<Rightarrow> string option" where
  "entryText v = (case v of Text str \<Rightarrow> Some str | _ \<Rightarrow> None)"

datatype process_error = SyntaxError

definition processValue :: "ParameterType \<Rightarrow> entry \<Rightarrow> process_error + jsvalue" where
  "processValue t v =
     (case t of
        T_int \<Rightarrow> Inr (JNum (case entryText v of Some str \<Rightarrow> Number_parseInt str | None \<Rightarrow> NaN))
      | T_number \<Rightarrow> Inr (JNum (case entryText v of Some str \<Rightarrow> Number_parseFloat str | None \<Rightarrow> NaN))
      | T_float \<Rightarrow> Inr (JNum (case entryText v of Some str \<Rightarrow> Number_parseFloat str | None \<Rightarrow> NaN))
      | T_list \<Rightarrow> (case parseEntry v of None \<Rightarrow> Inl SyntaxError | Some parsed \<Rightarrow> Inr parsed)
      | T_dict \<Rightarrow> (case parseEntry v of None \<Rightarrow> Inl SyntaxError | Some parsed \<Rightarrow> Inr parsed)
      | T_string \<Rightarrow> Inr (entryValue v))"

fun processValues :: "(string \<Rightarrow> entry) \<Rightarrow> PipelineParameter list \<Rightarrow> (string \<times> jsvalue) list
     \<Rightarrow> process_error + (string \<times> jsvalue) list" where
  "processValues values [] processedValues = Inr processedValues"
| "processValues values (param # rest) processedValues =
     (if values (key param) \<noteq> Undefined then
        (case processValue (type param) (values (key param)) of
           Inl err \<Rightarrow> Inl err
         | Inr pv \<Rightarrow> processValues values rest (objPut processedValues (key param) pv))
      else processValues values rest processedValues)"

text \<open>
  \<open>handleExecute\<close>: nothing is submitted when \<open>validateValues\<close> fails; otherwise
  \<open>onExecute\<close> receives the processed values, or the error of \<open>processValues\<close> is shown.
\<close>

datatype submission = NotSubmitted | Submitted "(string \<times> jsvalue) list" | Failed process_error

definition handleExecute :: "(string \<Rightarrow> entry) \<Rightarrow> PipelineParameter list \<Rightarrow> submission" where
  "handleExecute values pars =
     (if \<not> validateValues values pars then NotSubmitted
      else (case processValues values pars [] of
              Inl err \<Rightarrow> Failed err
            | Inr processedValues \<Rightarrow> Submitted processedValues))"

section \<open>Fetching, filtering, sorting and paging the task list\<close>

text \<open>
  Strings are lists of characters; a character stands for a UTF-16 code unit below 256.
  \<open>toLowerCase\<close> maps the capital letters of that range to their small letters, and
  \<open>js_includes\<close> is \<open>String.prototype.includes\<close>: the argument occurs as a contiguous
  substring.
\<close>

definition toLowerCaseChar :: "char \<Rightarrow> char" where
  "toLowerCaseChar c =
     (let n = (of_char c :: nat) in
      if (65 \<le> n \<and> n \<le> 90) \<or> (192 \<le> n \<and> n \<le> 222 \<and> n \<noteq> 215) then char_of (n + 32) else c)"

definition toLowerCase :: "string \<Rightarrow> string" where
  "toLowerCase s = map toLowerCaseChar s"

fun js_includes :: "string \<Rightarrow> string \<Rightarrow> bool" where
  "js_includes [] sub = (sub = [])"
| "js_includes (c # cs) sub = (prefix sub (c # cs) \<or> js_includes cs sub)"

text \<open>
  \<open>Array.prototype.sort\<close> with a comparator is stable (ECMAScript 2019): an element is
  placed after the elements that were before it in the array unless the comparator puts
  it strictly before them. Insertion from the right end gives that order.
\<close>

fun insert_by :: "('a \<Rightarrow> 'a \<Rightarrow> int) \<Rightarrow> 'a \<Rightarrow> 'a list \<Rightarrow> 'a list" where
  "insert_by cmp x [] = [x]"
| "insert_by cmp x (y # ys) = (if cmp x y \<le> 0 then x # y # ys else y # insert_by cmp x ys)"

definition js_sort :: "('a \<Rightarrow> 'a \<Rightarrow> int) \<Rightarrow> 'a list \<Rightarrow> 'a list" where
  "js_sort cmp xs = foldr (insert_by cmp) xs []"

text \<open>
  \<open>Array.prototype.slice(start, end)\<close>: a negative index counts from the end of the array,
  and both indexes are clamped to the array.
\<close>

definition js_slice :: "'a list \<Rightarrow> int \<Rightarrow> int \<Rightarrow> 'a list" where
  "js_slice xs start fin =
     (let len = int (length xs);
          k = (if start < 0 then max (len + start) 0 else min start len);
          final = (if fin < 0 then max (len + fin) 0 else min fin len)
      in take (nat (final - k)) (drop (nat k) xs))"

text \<open>
  \<open>ExecutionFilter\<close>: every field is optional. The status filter is a task status or the
  word "ALL" (here \<open>AllStatuses\<close>).
\<close>

datatype status_filter = AllStatuses | Only ExecutionStatus

record ExecutionFilter =
  search :: "string option"
  statusFilter :: "status_filter option"
  dateFrom :: "int option"
  dateTo :: "int option"

text \<open>
  The four filter steps, which \<open>fetchExecutions\<close> (lib/execution-client.ts) and
  \<open>getMockExecutions\<close> (lib/mock-data.ts) both apply in this order. A condition such as
  \<open>if (filters.search)\<close> holds for a defined, non-empty string; \<open>if (filters.dateFrom)\<close>
  for a defined date. \<open>setHours(23, 59, 59, 999)\<close> moves a date to the end of its day in
  the local time zone: that function is the parameter \<open>endOfDay\<close>.
\<close>

definition applySearch :: "ExecutionFilter \<Rightarrow> Execution list \<Rightarrow> Execution list" where
  "applySearch filters executions =
     (case search filters of
        None \<Rightarrow> executions
      | Some text \<Rightarrow>
          if text = [] then executions
          else (let s = toLowerCase text in
                filter (\<lambda>e. js_includes (toLowerCase (requestId e)) s
                             \<or> js_includes (toLowerCase (pipelineName e)) s
                             \<or> js_includes (toLowerCase (version e)) s) executions))"

definition applyStatus :: "ExecutionFilter \<Rightarrow> Execution list \<Rightarrow> Execution list" where
  "applyStatus filters executions =
     (case statusFilter filters of
        None \<Rightarrow> executions
      | Some AllStatuses \<Rightarrow> executions
      | Some (Only st) \<Rightarrow> filter (\<lambda>e. status e = st) executions)"

definition applyDateFrom :: "ExecutionFilter \<Rightarrow> Execution list \<Rightarrow> Execution list" where
  "applyDateFrom filters executions =
     (case dateFrom filters of
        None \<Rightarrow> executions
      | Some d \<Rightarrow> filter (\<lambda>e. createdAt e \<ge> d) executions)"

definition applyDateTo :: "(int \<Rightarrow> int) \<Rightarrow> ExecutionFilter \<Rightarrow> Execution list \<Rightarrow> Execution list" where
  "applyDateTo endOfDay filters executions =
     (case dateTo filters of
        None \<Rightarrow> executions
      | Some d \<Rightarrow> (let end' = endOfDay d in filter (\<lambda>e. createdAt e \<le> end') executions))"

definition applyFilters :: "(int \<Rightarrow> int) \<Rightarrow> ExecutionFilter \<Rightarrow> Execution list \<Rightarrow> Execution list" where
  "applyFilters endOfDay filters executions =
     applyDateTo endOfDay filters (applyDateFrom filters (applyStatus filters (applySearch filters executions)))"

text \<open>
  \<open>fetchExecutions\<close>, which the monitor page calls. The response of \<open>GET /tasks\<close> is
  \<open>None\<close> when the request is not ok (the function throws) and otherwise the task records,
  already converted by \<open>mapTaskToExecution\<close>. Step 4 of the source sorts by \<open>createdAt\<close>,
  descending; step 5 cuts the page out.
\<close>

datatype fetch_error = FalhaAoBuscarExecucoes

definition byCreatedAtDesc :: "Execution \<Rightarrow> Execution \<Rightarrow> int" where
  "byCreatedAtDesc a b = createdAt b - createdAt a"

definition fetchExecutions ::
  "(int \<Rightarrow> int) \<Rightarrow> Execution list option \<Rightarrow> ExecutionFilter \<Rightarrow> int \<Rightarrow> int
     \<Rightarrow> fetch_error + (Execution list \<times> nat)" where
  "fetchExecutions endOfDay response filters page pageSize =
     (case response of
        None \<Rightarrow> Inl FalhaAoBuscarExecucoes
      | Some tasks \<Rightarrow>
          (let executions = applyFilters endOfDay filters tasks;
               executions = js_sort byCreatedAtDesc executions;
               total' = length executions;
               offset = (page - 1) * pageSize;
               executions = js_slice executions offset (offset + pageSize)
           in Inr (executions, total')))"

text \<open>
  \<open>getMockExecutions\<close> over the list \<open>mockExecutions\<close>. Its comparator orders by
  \<open>finishedAt\<close>, descending, a task without a finish time after a task with one.
\<close>

definition byFinishedAtDesc :: "Execution \<Rightarrow> Execution \<Rightarrow> int" where
  "byFinishedAtDesc a b =
     (if finishedAt a = None \<and> finishedAt b = None then 0
      else if finishedAt a = None then 1
      else if finishedAt b = None then - 1
      else the (finishedAt b) - the (finishedAt a))"

definition getMockExecutions ::
  "(int \<Rightarrow> int) \<Rightarrow> Execution list \<Rightarrow> ExecutionFilter \<Rightarrow> int \<Rightarrow> int \<Rightarrow> Execution list \<times> nat" where
  "getMockExecutions endOfDay mockExecutions filters page pageSize =
     (let filtered = applyFilters endOfDay filters mockExecutions;
          filtered = js_sort byFinishedAtDesc filtered;
          start = (page - 1) * pageSize;
          paginatedExecutions = js_slice filtered start (start + pageSize)
      in (paginatedExecutions, length filtered))"

section \<open>The state of the monitor page\<close>

text \<open>
  The state variables of \<open>MonitorExecutions\<close> that the list and the pagination depend on,
  with their initial values. \<open>pageSize\<close> has no setter.
\<close>

record MonitorState =
  executions :: "Execution list"
  totalExecutions :: nat
  currentPage :: int
  pageSize :: int
  filters :: ExecutionFilter
  autoRefresh :: bool

definition initialMonitorState :: MonitorState where
  "initialMonitorState =
     \<lparr>executions = [], totalExecutions = 0, currentPage = 1, pageSize = 10,
      filters = \<lparr>search = Some [], statusFilter = Some AllStatuses, dateFrom = None, dateTo = None\<rparr>,
      autoRefresh = True\<rparr>"

text \<open>\<open>const totalPages = Math.ceil(totalExecutions / pageSize)\<close>\<close>

definition totalPages :: "MonitorState \<Rightarrow> int" where
  "totalPages s = \<lceil>real (totalExecutions s) / real_of_int (pageSize s)\<rceil>"

text \<open>
  \<open>handleFilterChange(key, value)\<close>: the key is one of the four fields of the filter.
\<close>

datatype filter_change =
  SetSearch "string option" | SetStatus "status_filter option"
  | SetDateFrom "int option" | SetDateTo "int option"

definition handleFilterChange :: "filter_change \<Rightarrow> MonitorState \<Rightarrow> MonitorState" where
  "handleFilterChange change s =
     s\<lparr>filters :=
          (case change of
             SetSearch v \<Rightarrow> (filters s)\<lparr>search := v\<rparr>
           | SetStatus v \<Rightarrow> (filters s)\<lparr>statusFilter := v\<rparr>
           | SetDateFrom v \<Rightarrow> (filters s)\<lparr>dateFrom := v\<rparr>
           | SetDateTo v \<Rightarrow> (filters s)\<lparr>dateTo := v\<rparr>),
        currentPage := 1\<rparr>"

text \<open>
  \<open>loadExecutions\<close>: on success the page of tasks and the total replace the state's; on
  failure a notification is shown and the state stays.
\<close>

definition loadExecutions :: "(int \<Rightarrow> int) \<Rightarrow> Execution list option \<Rightarrow> MonitorState \<Rightarrow> MonitorState" where
  "loadExecutions endOfDay response s =
     (case fetchExecutions endOfDay response (filters s) (currentPage s) (pageSize s) of
        Inl err \<Rightarrow> s
      | Inr (list', total') \<Rightarrow> s\<lparr>executions := list', totalExecutions := total'\<rparr>)"

text \<open>
  The two pagination buttons. They are rendered only when \<open>totalPages > 1\<close>; "Anterior"
  is disabled on page 1 and "Proxima" on the last page. A click on a button that is not
  rendered or is disabled changes nothing.
\<close>

definition clickAnterior :: "MonitorState \<Rightarrow> MonitorState" where
  "clickAnterior s =
     (if totalPages s > 1 \<and> currentPage s \<noteq> 1
      then s\<lparr>currentPage := max (currentPage s - 1) 1\<rparr> else s)"

definition clickProxima :: "MonitorState \<Rightarrow> MonitorState" where
  "clickProxima s =
     (if totalPages s > 1 \<and> currentPage s \<noteq> totalPages s
      then s\<lparr>currentPage := min (currentPage s + 1) (totalPages s)\<rparr> else s)"

text \<open>
  Everything that changes the state: a filter change, a click on a pagination button, the
  auto-refresh switch, and the arrival of a response of \<open>GET /tasks\<close> (after any change,
  on the timer, or on "Atualizar agora").
\<close>

datatype monitor_event =
  FilterChange filter_change | Anterior | Proxima | SetAutoRefresh bool
  | Response "Execution list option"

fun monitor_step :: "(int \<Rightarrow> int) \<Rightarrow> monitor_event \<Rightarrow> MonitorState \<Rightarrow> MonitorState" where
  "monitor_step endOfDay (FilterChange change) s = handleFilterChange change s"
| "monitor_step endOfDay Anterior s = clickAnterior s"
| "monitor_step endOfDay Proxima s = clickProxima s"
| "monitor_step endOfDay (SetAutoRefresh b) s = s\<lparr>autoRefresh := b\<rparr>"
| "monitor_step endOfDay (Response response) s = loadExecutions endOfDay response s"

fun monitor_run :: "(int \<Rightarrow> int) \<Rightarrow> monitor_event list \<Rightarrow> MonitorState \<Rightarrow> MonitorState" where
  "monitor_run endOfDay [] s = s"
| "monitor_run endOfDay (ev # evs) s = monitor_run endOfDay evs (monitor_step endOfDay ev s)"

text \<open>
  The order the specification describes for the monitor: \<open>a\<close> may stand before \<open>b\<close> when
  \<open>b\<close> has no finish time, or both have one and that of \<open>b\<close> is not later.
\<close>

definition finishedOrder :: "Execution \<Rightarrow> Execution \<Rightarrow> bool" where
  "finishedOrder a b =
     (case finishedAt b of
        None \<Rightarrow> True
      | Some fb \<Rightarrow> (case finishedAt a of None \<Rightarrow> False | Some fa \<Rightarrow> fb \<le> fa))"

text \<open>Sample task records for the concrete instances below.\<close>

definition sampleExecution :: "string \<Rightarrow> ExecutionStatus \<Rightarrow> int \<Rightarrow> int option \<Rightarrow> Execution" where
  "sampleExecution rid st created finished =
     \<lparr>requestId = rid, pipelineName = ''etl'', version = ''v1'', params = ''{}'',
      status = st, retryCount = 0, createdAt = created, startedAt = Some created,
      finishedAt = finished, outputType = Some ''csv'', outputPath = None, error = None,
      logs = []\<rparr>"

section \<open>Lemmas on sorting and paging\<close>

lemma mset_insert_by: "mset (insert_by cmp x ys) = add_mset x (mset ys)"
  by (induction ys) auto

lemma mset_js_sort: "mset (js_sort cmp xs) = mset xs"
  by (induction xs) (auto simp: js_sort_def mset_insert_by)

lemma set_insert_by: "set (insert_by cmp x ys) = insert x (set ys)"
  by (induction ys) auto

lemma length_js_sort: "length (js_sort cmp xs) = length xs"
  by (metis mset_js_sort size_mset)

lemma js_sort_Cons: "js_sort cmp (x # xs) = insert_by cmp x (js_sort cmp xs)"
  by (simp add: js_sort_def)

text \<open>
  A comparator that is total and transitive (as a "not after" relation) yields a list
  in which no element stands before one it must come after.
\<close>

lemma sorted_insert_by:
  assumes tot: "\<And>a b. cmp a b \<le> 0 \<or> cmp b a \<le> 0"
    and tr: "\<And>a b c. cmp a b \<le> 0 \<Longrightarrow> cmp b c \<le> 0 \<Longrightarrow> cmp a c \<le> 0"
    and s: "sorted_wrt (\<lambda>a b. cmp a b \<le> 0) ys"
  shows "sorted_wrt (\<lambda>a b. cmp a b \<le> 0) (insert_by cmp x ys)"
  using s
proof (induction ys)
  case Nil
  then show ?case by simp
next
  case (Cons y ys)
  show ?case
  proof (cases "cmp x y \<le> 0")
    case True
    with Cons.prems show ?thesis by (auto intro: tr)
  next
    case False
    then have "cmp y x \<le> 0" using tot [of x y] by simp
    with False Cons show ?thesis by (auto simp: set_insert_by)
  qed
qed

lemma sorted_js_sort:
  assumes tot: "\<And>a b. cmp a b \<le> 0 \<or> cmp b a \<le> 0"
    and tr: "\<And>a b c. cmp a b \<le> 0 \<Longrightarrow> cmp b c \<le> 0 \<Longrightarrow> cmp a c \<le> 0"
  shows "sorted_wrt (\<lambda>a b. cmp a b \<le> 0) (js_sort cmp xs)"
proof (induction xs)
  case Nil
  then show ?case by (simp add: js_sort_def)
next
  case (Cons x xs)
  with sorted_insert_by [of cmp, OF tot tr] show ?case by (simp add: js_sort_Cons)
qed

text \<open>Stability: elements that the comparator does not separate keep their order.\<close>

lemma filter_insert_by:
  assumes "\<And>y. P y \<Longrightarrow> P x \<Longrightarrow> cmp x y \<le> 0"
  shows "filter P (insert_by cmp x ys) = (if P x then x # filter P ys else filter P ys)"
  using assms by (induction ys) auto

lemma filter_js_sort:
  assumes "\<And>a b. P a \<Longrightarrow> P b \<Longrightarrow> cmp a b \<le> 0"
  shows "filter P (js_sort cmp xs) = filter P xs"
proof (induction xs)
  case Nil
  then show ?case by (simp add: js_sort_def)
next
  case (Cons x xs)
  then show ?case
    using filter_insert_by [of P x cmp "js_sort cmp xs"] assms by (simp add: js_sort_Cons)
qed

lemma sorted_wrt_js_slice: "sorted_wrt R xs \<Longrightarrow> sorted_wrt R (js_slice xs i j)"
  by (simp add: js_slice_def Let_def)

lemma sorted_byCreatedAtDesc:
  "sorted_wrt (\<lambda>a b. createdAt b \<le> createdAt a) (js_sort byCreatedAtDesc xs)"
proof -
  have "sorted_wrt (\<lambda>a b. byCreatedAtDesc a b \<le> 0) (js_sort byCreatedAtDesc xs)"
    by (rule sorted_js_sort) (auto simp: byCreatedAtDesc_def)
  then show ?thesis by (simp add: byCreatedAtDesc_def)
qed

lemma byFinishedAtDesc_le: "byFinishedAtDesc a b \<le> 0 \<longleftrightarrow> finishedOrder a b"
  by (auto simp: byFinishedAtDesc_def finishedOrder_def split: option.splits)

lemma sorted_byFinishedAtDesc:
  "sorted_wrt finishedOrder (js_sort byFinishedAtDesc xs)"
proof -
  have "sorted_wrt (\<lambda>a b. byFinishedAtDesc a b \<le> 0) (js_sort byFinishedAtDesc xs)"
    by (rule sorted_js_sort)
      (auto simp: byFinishedAtDesc_le finishedOrder_def split: option.splits)
  then show ?thesis by (simp add: byFinishedAtDesc_le)
qed

lemma totalPages_div: "totalPages s = - ((- int (totalExecutions s)) div pageSize s)"
  unfolding totalPages_def
  by (metis ceiling_divide_eq_div of_int_of_nat_eq)

lemma monitor_step_inv:
  "pageSize s = 10 \<and> 1 \<le> currentPage s \<Longrightarrow>
   pageSize (monitor_step eod ev s) = 10 \<and> 1 \<le> currentPage (monitor_step eod ev s)"
  by (cases ev) (auto simp: handleFilterChange_def clickAnterior_def clickProxima_def
      loadExecutions_def split: sum.splits prod.splits)

lemma monitor_run_inv:
  "pageSize s = 10 \<and> 1 \<le> currentPage s \<Longrightarrow>
   pageSize (monitor_run eod evs s) = 10 \<and> 1 \<le> currentPage (monitor_run eod evs s)"
proof (induction evs arbitrary: s)
  case Nil
  then show ?case by simp
next
  case (Cons ev evs)
  from monitor_step_inv [OF Cons.prems] Cons.IH show ?case by simp
qed

lemmas monitor_eval =
  initialMonitorState_def loadExecutions_def fetchExecutions_def getMockExecutions_def
  applyFilters_def applySearch_def applyStatus_def applyDateFrom_def applyDateTo_def
  js_sort_def js_slice_def clickProxima_def clickAnterior_def handleFilterChange_def
  Let_def byCreatedAtDesc_def byFinishedAtDesc_def sampleExecution_def

section \<open>Lemmas on the forms and the store\<close>

lemma validateParameters_other:
  "(\<forall>j. f = ParamKeyField j \<longrightarrow> j < n) \<Longrightarrow>
   fst (validateParameters n ps (E, U)) f = E f"
proof (induction ps arbitrary: n E U)
  case Nil
  then show ?case by simp
next
  case (Cons p ps)
  have "(\<forall>j. f = ParamKeyField j \<longrightarrow> j < Suc n)" using Cons.prems by auto
  from Cons.IH [OF this] Cons.prems show ?case by auto
qed

text \<open>
  The set \<open>uniqueKeys\<close> holds the well-formed keys met so far; a key that is not
  well-formed is rejected before the set is consulted, so "met before" and "accepted
  before" give the same error.
\<close>

lemma validateParameters_at:
  "i < length ps \<Longrightarrow> E (ParamKeyField (n + i)) = None \<Longrightarrow>
   fst (validateParameters n ps (E, U)) (ParamKeyField (n + i))
     = keyError (U \<union> key ` set (take i ps)) (key (ps ! i))"
proof (induction ps arbitrary: n E U i)
  case Nil
  then show ?case by simp
next
  case (Cons p ps)
  show ?case
  proof (cases i)
    case 0
    then show ?thesis
      using Cons.prems
      by (auto simp: validateParameters_other keyError_def)
  next
    case (Suc j)
    with Cons.prems have j: "j < length ps" by simp
    have idx: "n + i = Suc n + j" using Suc by simp
    show ?thesis
      using Cons.IH [OF j, of _ "Suc n"] Cons.prems Suc
      by (auto simp: keyError_def idx)
  qed
qed

lemma sample_keys: "trim ''rows'' \<noteq> [] \<and> keyRegex_test ''rows''
    \<and> trim ''date'' \<noteq> [] \<and> keyRegex_test ''date'' \<and> trim ''etl'' \<noteq> []"
  by code_simp

lemma validateOne_other: "key param \<noteq> k \<Longrightarrow> validateOne vals param E k = E k"
  by (auto simp: validateOne_def Let_def split: sum.splits)

lemma validateOne_missing:
  "vals (key param) = Undefined \<or> vals (key param) = Text [] \<Longrightarrow>
   validateOne vals param E = E(key param \<mapsto> ValorObrigatorio)"
  by (auto simp: validateOne_def Let_def)

lemma foldl_validate_missing:
  "vals k = Undefined \<or> vals k = Text [] \<Longrightarrow>
   foldl (\<lambda>newErrors param. validateOne vals param newErrors) E pars k
     = (if k \<in> key ` set pars then Some ValorObrigatorio else E k)"
proof (induction pars arbitrary: E)
  case Nil
  then show ?case by simp
next
  case (Cons param pars)
  show ?case
  proof (cases "key param = k")
    case True
    with Cons.prems have "validateOne vals param E = E(k \<mapsto> ValorObrigatorio)"
      using validateOne_missing [of vals param E] by simp
    moreover have "foldl (\<lambda>newErrors param. validateOne vals param newErrors)
        (E(k \<mapsto> ValorObrigatorio)) pars k = Some ValorObrigatorio"
      unfolding Cons.IH [OF Cons.prems] by simp
    ultimately show ?thesis using True by simp
  next
    case False
    then have "validateOne vals param E k = E k" by (rule validateOne_other)
    with False Cons show ?thesis by auto
  qed
qed



text \<open>
  The stored item is a JSON array: the JSON texts of the pipelines, in the order of the
  list, separated by commas.
\<close>

lemma serialize_text:
  "serialize ps = Some (''['' @ joinWith '','' (map (\<lambda>p. the (JSON_stringify (pipelineToJS p))) ps) @ '']'')"
proof -
  have "(case JSON_stringify (pipelineToJS p) of None \<Rightarrow> ''null'' | Some t \<Rightarrow> t)
      = the (JSON_stringify (pipelineToJS p))" for p
    by (simp add: pipelineToJS_def)
  then show ?thesis by (simp add: serialize_def comp_def)
qed

section \<open>Lemmas on the round trip through storage\<close>

subsection \<open>Dates: \<open>new Date\<close> reads back what \<open>toISOString\<close> writes\<close>

declare digitsOfNat.simps [simp del]




























subsection \<open>Strings: the scanner reads back what \<open>quoteJSON\<close> writes\<close>







subsection \<open>The tokens of the text of a value\<close>









subsection \<open>The parser rebuilds the value from its tokens\<close>









subsection \<open>Pipelines: the loader reads back what the saving effect writes\<close>










section \<open>Theorems\<close>

text \<open>
  C1, as amended. The monitor page calls \<open>fetchExecutions\<close>, which presents the tasks
  that pass the filters sorted by creation time, descending, tasks of equal creation time
  in the order fetched, whatever their finish times. The order by finish time, descending,
  with every task lacking a finish time after all tasks that have one and in unchanged
  relative order, is that of \<open>getMockExecutions\<close>, which the monitor page does not call;
  there, of two tasks one of which has no finish time, the one with a finish time sorts
  first.
\<close>

theorem task_order:
  "(fetchExecutions eod (Some tasks) f page ps = Inr (shown, n) \<longrightarrow>
      shown = js_slice (js_sort byCreatedAtDesc (applyFilters eod f tasks))
                ((page - 1) * ps) ((page - 1) * ps + ps)
      \<and> n = length (applyFilters eod f tasks)
      \<and> sorted_wrt (\<lambda>a b. createdAt b \<le> createdAt a) shown)
   \<and> sorted_wrt (\<lambda>a b. createdAt b \<le> createdAt a) (js_sort byCreatedAtDesc xs)
   \<and> mset (js_sort byCreatedAtDesc xs) = mset xs
   \<and> filter (\<lambda>e. createdAt e = t) (js_sort byCreatedAtDesc xs) = filter (\<lambda>e. createdAt e = t) xs
   \<and> (getMockExecutions eod mock f page ps = (shown', n') \<longrightarrow>
      shown' = js_slice (js_sort byFinishedAtDesc (applyFilters eod f mock))
                 ((page - 1) * ps) ((page - 1) * ps + ps)
      \<and> n' = length (applyFilters eod f mock)
      \<and> sorted_wrt finishedOrder shown')
   \<and> sorted_wrt finishedOrder (js_sort byFinishedAtDesc xs)
   \<and> mset (js_sort byFinishedAtDesc xs) = mset xs
   \<and> filter (\<lambda>e. finishedAt e = None) (js_sort byFinishedAtDesc xs)
       = filter (\<lambda>e. finishedAt e = None) xs
   \<and> (finishedAt a = None \<and> finishedAt b \<noteq> None \<longrightarrow>
       js_sort byFinishedAtDesc [a, b] = [b, a] \<and> js_sort byFinishedAtDesc [b, a] = [b, a])"
proof -
  have fetch: "fetchExecutions eod (Some tasks) f page ps = Inr (shown, n) \<longrightarrow>
      shown = js_slice (js_sort byCreatedAtDesc (applyFilters eod f tasks))
                ((page - 1) * ps) ((page - 1) * ps + ps)
      \<and> n = length (applyFilters eod f tasks)
      \<and> sorted_wrt (\<lambda>a b. createdAt b \<le> createdAt a) shown"
    by (auto simp: fetchExecutions_def Let_def length_js_sort
        intro!: sorted_wrt_js_slice sorted_byCreatedAtDesc)
  have mock: "getMockExecutions eod mock f page ps = (shown', n') \<longrightarrow>
      shown' = js_slice (js_sort byFinishedAtDesc (applyFilters eod f mock))
                 ((page - 1) * ps) ((page - 1) * ps + ps)
      \<and> n' = length (applyFilters eod f mock)
      \<and> sorted_wrt finishedOrder shown'"
    by (auto simp: getMockExecutions_def Let_def length_js_sort
        intro!: sorted_wrt_js_slice sorted_byFinishedAtDesc)
  have stable_created: "filter (\<lambda>e. createdAt e = t) (js_sort byCreatedAtDesc xs)
      = filter (\<lambda>e. createdAt e = t) xs"
    by (rule filter_js_sort) (simp add: byCreatedAtDesc_def)
  have stable_unfinished: "filter (\<lambda>e. finishedAt e = None) (js_sort byFinishedAtDesc xs)
      = filter (\<lambda>e. finishedAt e = None) xs"
    by (rule filter_js_sort) (simp add: byFinishedAtDesc_def)
  have two: "finishedAt a = None \<and> finishedAt b \<noteq> None \<longrightarrow>
       js_sort byFinishedAtDesc [a, b] = [b, a] \<and> js_sort byFinishedAtDesc [b, a] = [b, a]"
    by (auto simp: js_sort_def byFinishedAtDesc_def)
  from fetch mock stable_created stable_unfinished two show ?thesis
    using sorted_byCreatedAtDesc [of xs] sorted_byFinishedAtDesc [of xs]
      mset_js_sort [of byCreatedAtDesc xs] mset_js_sort [of byFinishedAtDesc xs]
    by blast
qed

theorem task_order_witness:
  "fetchExecutions (\<lambda>d. d)
     (Some [sampleExecution ''a'' SUCCESS 1000 (Some 9000), sampleExecution ''b'' STARTED 2000 None])
     (filters initialMonitorState) 1 10
   = Inr ([sampleExecution ''b'' STARTED 2000 None, sampleExecution ''a'' SUCCESS 1000 (Some 9000)], 2)
   \<and> sorted_wrt (\<lambda>a b. createdAt b \<le> createdAt a)
       [sampleExecution ''b'' STARTED 2000 None, sampleExecution ''a'' SUCCESS 1000 (Some 9000)]
   \<and> js_sort byFinishedAtDesc
       [sampleExecution ''b'' STARTED 2000 None, sampleExecution ''a'' SUCCESS 1000 (Some 9000)]
     = [sampleExecution ''a'' SUCCESS 1000 (Some 9000), sampleExecution ''b'' STARTED 2000 None]"
proof -
  have run: "fetchExecutions (\<lambda>d. d)
     (Some [sampleExecution ''a'' SUCCESS 1000 (Some 9000), sampleExecution ''b'' STARTED 2000 None])
     (filters initialMonitorState) 1 10
   = Inr ([sampleExecution ''b'' STARTED 2000 None, sampleExecution ''a'' SUCCESS 1000 (Some 9000)], 2)"
    by (simp add: monitor_eval)
  have fin: "finishedAt (sampleExecution ''b'' STARTED 2000 None) = None
     \<and> finishedAt (sampleExecution ''a'' SUCCESS 1000 (Some 9000)) \<noteq> None"
    by (simp add: sampleExecution_def)
  from run fin
    task_order [of "\<lambda>d. d"
      "[sampleExecution ''a'' SUCCESS 1000 (Some 9000), sampleExecution ''b'' STARTED 2000 None]"
      "filters initialMonitorState" 1 10
      "[sampleExecution ''b'' STARTED 2000 None, sampleExecution ''a'' SUCCESS 1000 (Some 9000)]" 2
      "[]" 0 "[]" "[]" 0
      "sampleExecution ''b'' STARTED 2000 None" "sampleExecution ''a'' SUCCESS 1000 (Some 9000)"]
  show ?thesis by blast
qed

text \<open>
  The claim as stated fails on the monitor: of two fetched tasks, the one without a
  finish time is presented before the finished one when it was created later.
\<close>

theorem task_order_counterexample:
  "fetchExecutions (\<lambda>d. d)
     (Some [sampleExecution ''a'' STARTED 2000 None, sampleExecution ''b'' SUCCESS 1000 (Some 5000)])
     (filters initialMonitorState) 1 10
   = Inr ([sampleExecution ''a'' STARTED 2000 None, sampleExecution ''b'' SUCCESS 1000 (Some 5000)], 2)
   \<and> finishedAt (sampleExecution ''a'' STARTED 2000 None) = None
   \<and> finishedAt (sampleExecution ''b'' SUCCESS 1000 (Some 5000)) = Some 5000
   \<and> \<not> sorted_wrt finishedOrder
       [sampleExecution ''a'' STARTED 2000 None, sampleExecution ''b'' SUCCESS 1000 (Some 5000)]"
  by (simp add: monitor_eval finishedOrder_def)

text \<open>
  C7, as amended. The page size is fixed at 10 and the current page is never below 1;
  changing any filter (search text, status, dateFrom or dateTo) resets the current page
  to 1; and a click on "Anterior" or "Proxima" keeps a page that lies within
  \<open>[1, ceil(total / pageSize)]\<close> within it, "Proxima" never leading beyond the last page.
  The page is not clamped when a response changes the total.
\<close>

theorem pagination:
  "pageSize (monitor_run eod evs initialMonitorState) = 10
   \<and> 1 \<le> currentPage (monitor_run eod evs initialMonitorState)
   \<and> currentPage (handleFilterChange change s) = 1
   \<and> (1 \<le> currentPage s \<and> currentPage s \<le> totalPages s \<longrightarrow>
        1 \<le> currentPage (clickAnterior s)
        \<and> currentPage (clickAnterior s) \<le> totalPages (clickAnterior s)
        \<and> 1 \<le> currentPage (clickProxima s)
        \<and> currentPage (clickProxima s) \<le> totalPages (clickProxima s))
   \<and> (clickProxima s \<noteq> s \<longrightarrow> currentPage (clickProxima s) \<le> totalPages (clickProxima s))"
proof -
  have init: "pageSize initialMonitorState = 10 \<and> 1 \<le> currentPage initialMonitorState"
    by (simp add: initialMonitorState_def)
  have reset: "currentPage (handleFilterChange change s) = 1"
    by (simp add: handleFilterChange_def)
  have keep: "1 \<le> currentPage s \<and> currentPage s \<le> totalPages s \<longrightarrow>
        1 \<le> currentPage (clickAnterior s)
        \<and> currentPage (clickAnterior s) \<le> totalPages (clickAnterior s)
        \<and> 1 \<le> currentPage (clickProxima s)
        \<and> currentPage (clickProxima s) \<le> totalPages (clickProxima s)"
    by (auto simp: clickAnterior_def clickProxima_def totalPages_def)
  have last: "clickProxima s \<noteq> s \<longrightarrow> currentPage (clickProxima s) \<le> totalPages (clickProxima s)"
    by (auto simp: clickProxima_def totalPages_def)
  from monitor_run_inv [OF init] reset keep last show ?thesis by blast
qed

theorem pagination_witness:
  "currentPage (monitor_run (\<lambda>d. d)
      [Response (Some (map (\<lambda>i. sampleExecution ''t'' SUCCESS i None) [1, 2, 3, 4, 5, 6, 7, 8, 9, 10, 11])),
       Proxima] initialMonitorState) = 2
   \<and> totalPages (monitor_run (\<lambda>d. d)
      [Response (Some (map (\<lambda>i. sampleExecution ''t'' SUCCESS i None) [1, 2, 3, 4, 5, 6, 7, 8, 9, 10, 11])),
       Proxima] initialMonitorState) = 2
   \<and> currentPage (clickAnterior (monitor_run (\<lambda>d. d)
      [Response (Some (map (\<lambda>i. sampleExecution ''t'' SUCCESS i None) [1, 2, 3, 4, 5, 6, 7, 8, 9, 10, 11])),
       Proxima] initialMonitorState)) \<le> 2
   \<and> 1 \<le> currentPage (clickAnterior (monitor_run (\<lambda>d. d)
      [Response (Some (map (\<lambda>i. sampleExecution ''t'' SUCCESS i None) [1, 2, 3, 4, 5, 6, 7, 8, 9, 10, 11])),
       Proxima] initialMonitorState))"
proof -
  let ?s = "monitor_run (\<lambda>d. d)
      [Response (Some (map (\<lambda>i. sampleExecution ''t'' SUCCESS i None) [1, 2, 3, 4, 5, 6, 7, 8, 9, 10, 11])),
       Proxima] initialMonitorState"
  have page: "currentPage ?s = 2" and pages: "totalPages ?s = 2"
    by (simp_all add: totalPages_div monitor_eval)
  have same: "totalPages (clickAnterior ?s) = totalPages ?s"
    by (simp add: clickAnterior_def totalPages_def)
  from page pages same pagination [of "\<lambda>d. d" "[]" "SetSearch None" ?s] show ?thesis by simp
qed

text \<open>
  The claim as stated fails: on page 2 of 11 tasks, a response with a single task leaves
  the current page at 2 while \<open>ceil(total / pageSize)\<close> is 1.
\<close>

theorem pagination_counterexample:
  "currentPage (monitor_run (\<lambda>d. d)
      [Response (Some (map (\<lambda>i. sampleExecution ''t'' SUCCESS i None) [1, 2, 3, 4, 5, 6, 7, 8, 9, 10, 11])),
       Proxima,
       Response (Some [sampleExecution ''t'' SUCCESS 1 None])] initialMonitorState) = 2
   \<and> totalPages (monitor_run (\<lambda>d. d)
      [Response (Some (map (\<lambda>i. sampleExecution ''t'' SUCCESS i None) [1, 2, 3, 4, 5, 6, 7, 8, 9, 10, 11])),
       Proxima,
       Response (Some [sampleExecution ''t'' SUCCESS 1 None])] initialMonitorState) = 1"
  by (simp add: totalPages_div monitor_eval)

text \<open>
  C2. The download action is available if and only if the status is SUCCESS, a finish time
  is present and at most three hours (10 800 000 ms) have passed since it. The button is
  disabled exactly when the download is not available, and the mock download accepts a
  found execution under the same rule. With status SUCCESS and a finish time 2 h 59 min
  before now the download is available; with a finish time 3 h 1 min before now the row
  shows "Expirado", the tooltip says the file expired, the button is disabled, no request
  is sent and the mock download answers that the file expired.
\<close>

theorem download_availability:
  "(isDownloadAvailable now e \<longleftrightarrow>
      status e = SUCCESS \<and> (\<exists>f. finishedAt e = Some f \<and> now - f \<le> 3 * 60 * 60 * 1000))
   \<and> (downloadDisabled now e \<longleftrightarrow> \<not> isDownloadAvailable now e)
   \<and> (handleDownload now e \<noteq> None \<longleftrightarrow> isDownloadAvailable now e)
   \<and> (getMockExecutionById xs rid = Some e \<longrightarrow>
        (downloadMockFile xs now rid = DownloadOk \<longleftrightarrow> isDownloadAvailable now e))
   \<and> (status e = SUCCESS \<and> finishedAt e = Some (now - (2 * 60 + 59) * 60 * 1000) \<longrightarrow>
        isDownloadAvailable now e \<and> \<not> downloadDisabled now e
        \<and> availabilityCell now e = Countdown (now + 60 * 1000))
   \<and> (status e = SUCCESS \<and> finishedAt e = Some (now - (3 * 60 + 1) * 60 * 1000) \<longrightarrow>
        \<not> isDownloadAvailable now e \<and> downloadDisabled now e
        \<and> availabilityCell now e = Expirado \<and> downloadTooltip now e = ArquivoExpirado
        \<and> handleDownload now e = None
        \<and> (getMockExecutionById xs rid = Some e \<longrightarrow> downloadMockFile xs now rid = FileExpired))"
  by (auto simp: isDownloadAvailable_def downloadDisabled_def handleDownload_def
      downloadMockFile_def availabilityCell_def downloadTooltip_def getExpiryDate_def
      threeHours_def Let_def split: option.splits)

theorem download_availability_witness:
  "isDownloadAvailable 20000000 (sampleExecution ''a'' SUCCESS 0 (Some (20000000 - 10740000)))
   \<and> \<not> isDownloadAvailable 20000000 (sampleExecution ''b'' SUCCESS 0 (Some (20000000 - 10860000)))
   \<and> availabilityCell 20000000 (sampleExecution ''b'' SUCCESS 0 (Some (20000000 - 10860000))) = Expirado
   \<and> downloadMockFile [sampleExecution ''b'' SUCCESS 0 (Some (20000000 - 10860000))] 20000000 ''b''
       = FileExpired"
  using download_availability [of 20000000 "sampleExecution ''a'' SUCCESS 0 (Some (20000000 - 10740000))"
      "[]" "''a''"]
    download_availability [of 20000000 "sampleExecution ''b'' SUCCESS 0 (Some (20000000 - 10860000))"
      "[sampleExecution ''b'' SUCCESS 0 (Some (20000000 - 10860000))]" "''b''"]
  by (simp add: sampleExecution_def)

text \<open>
  C3. For a parameter of type int, validation succeeds exactly when \<open>Number(value)\<close> is an
  integer and fails with the integer-required error otherwise, and on success the value
  submitted is \<open>Number.parseInt(value)\<close>. The two conversions differ: the text "1e3" is
  accepted as the integer 1000, and 1 is submitted. "42" is accepted and submitted as 42,
  and "4.2" is rejected.
\<close>

theorem int_validation_and_coercion:
  "validateParameterValue ''n'' (Text ''1e3'') T_int = Inr ()
   \<and> numValue (js_Number ''1e3'') = Some 1000
   \<and> processValue T_int (Text ''1e3'') = Inr (JNum (Dec 1 0))
   \<and> numValue (Dec 1 0) = Some 1
   \<and> handleExecute (handleValueChange ''n'' ''1e3'' initialValues) [sampleParameter ''n'' T_int JNull]
       = Submitted [(''n'', JNum (Dec 1 0))]
   \<and> validateParameterValue ''n'' (Text ''42'') T_int = Inr ()
   \<and> processValue T_int (Text ''42'') = Inr (JNum (Dec 42 0))
   \<and> numValue (Dec 42 0) = Some 42
   \<and> validateParameterValue ''n'' (Text ''4.2'') T_int = Inl DeveSerInteiro"
proof -
  have a: "validateParameterValue ''n'' (Text ''1e3'') T_int = Inr ()
   \<and> numValue (js_Number ''1e3'') = Some 1000
   \<and> processValue T_int (Text ''1e3'') = Inr (JNum (Dec 1 0))
   \<and> numValue (Dec 1 0) = Some 1
   \<and> validateParameterValue ''n'' (Text ''42'') T_int = Inr ()
   \<and> processValue T_int (Text ''42'') = Inr (JNum (Dec 42 0))
   \<and> numValue (Dec 42 0) = Some 42
   \<and> validateParameterValue ''n'' (Text ''4.2'') T_int = Inl DeveSerInteiro"
    by code_simp
  have b: "handleExecute (handleValueChange ''n'' ''1e3'' initialValues) [sampleParameter ''n'' T_int JNull]
       = Submitted [(''n'', JNum (Dec 1 0))]"
    using a
    by (simp add: handleExecute_def validateValues_def valueErrors_def validateOne_def
        handleValueChange_def sampleParameter_def)
  from a b show ?thesis by simp
qed



text \<open>
  C5. Validation of a pipeline form accepts the key of parameter \<open>i\<close> (sets no error for
  it) exactly when the key is not blank, matches \<open>^[A-Za-z_][A-Za-z0-9_]*$\<close> and equals
  no key earlier in the list. The error "the key must be unique" is set for a well-formed
  key exactly when the key occurs earlier in the list: on a later occurrence, never on
  the first. A form that validates has no error on any key.
\<close>

theorem parameter_key_validation:
  "i < length pars \<longrightarrow>
     (formErrors nm descr pars (ParamKeyField i) = None \<longleftrightarrow>
        trim (key (pars ! i)) \<noteq> [] \<and> keyRegex_test (key (pars ! i))
        \<and> key (pars ! i) \<notin> key ` set (take i pars))
     \<and> (formErrors nm descr pars (ParamKeyField i) = Some ChaveUnica \<longleftrightarrow>
        trim (key (pars ! i)) \<noteq> [] \<and> keyRegex_test (key (pars ! i))
        \<and> key (pars ! i) \<in> key ` set (take i pars))
     \<and> (validateForm nm descr pars \<longrightarrow> formErrors nm descr pars (ParamKeyField i) = None)"
proof -
  have init: "validateDescription descr (validateName nm Map.empty) (ParamKeyField (0 + i)) = None"
    by (simp add: validateDescription_def validateName_def)
  have eq: "formErrors nm descr pars (ParamKeyField i)
      = keyError (key ` set (take i pars)) (key (pars ! i))" if "i < length pars"
    using validateParameters_at [of i pars "validateDescription descr (validateName nm Map.empty)" 0 "{}"]
      init that
    by (simp add: formErrors_def)
  have valid: "validateForm nm descr pars \<longrightarrow> formErrors nm descr pars (ParamKeyField i) = None"
    unfolding validateForm_def by (metis domIff empty_iff)
  show ?thesis
  proof (cases "i < length pars")
    case True
    have a: "formErrors nm descr pars (ParamKeyField i) = None \<longleftrightarrow>
        trim (key (pars ! i)) \<noteq> [] \<and> keyRegex_test (key (pars ! i))
        \<and> key (pars ! i) \<notin> key ` set (take i pars)"
      unfolding eq [OF True] keyError_def by simp
    have b: "formErrors nm descr pars (ParamKeyField i) = Some ChaveUnica \<longleftrightarrow>
        trim (key (pars ! i)) \<noteq> [] \<and> keyRegex_test (key (pars ! i))
        \<and> key (pars ! i) \<in> key ` set (take i pars)"
      unfolding eq [OF True] keyError_def by simp
    from a b valid show ?thesis by blast
  next
    case False
    then show ?thesis by simp
  qed
qed

theorem parameter_key_validation_witness:
  "formErrors ''etl'' []
     [sampleParameter ''rows'' T_int JNull, sampleParameter ''date'' T_string JNull,
      sampleParameter ''rows'' T_float JNull] (ParamKeyField 0) = None
   \<and> formErrors ''etl'' []
     [sampleParameter ''rows'' T_int JNull, sampleParameter ''date'' T_string JNull,
      sampleParameter ''rows'' T_float JNull] (ParamKeyField 1) = None
   \<and> formErrors ''etl'' []
     [sampleParameter ''rows'' T_int JNull, sampleParameter ''date'' T_string JNull,
      sampleParameter ''rows'' T_float JNull] (ParamKeyField 2) = Some ChaveUnica"
  using sample_keys
    parameter_key_validation [of 0 "[sampleParameter ''rows'' T_int JNull,
      sampleParameter ''date'' T_string JNull, sampleParameter ''rows'' T_float JNull]" "''etl''" "[]"]
    parameter_key_validation [of 1 "[sampleParameter ''rows'' T_int JNull,
      sampleParameter ''date'' T_string JNull, sampleParameter ''rows'' T_float JNull]" "''etl''" "[]"]
    parameter_key_validation [of 2 "[sampleParameter ''rows'' T_int JNull,
      sampleParameter ''date'' T_string JNull, sampleParameter ''rows'' T_float JNull]" "''etl''" "[]"]
  by (simp add: sampleParameter_def)

text \<open>
  What the mandatory check does achieve: when the entry read for the key of a parameter
  is \<open>undefined\<close> or the empty string, validation records the mandatory-value error for
  that key, whatever the type of the parameter (the check of the type is not reached),
  and nothing is submitted; a submission takes place only when no key has an error.
\<close>

lemma mandatory_values:
  "(param \<in> set pars \<and> (vals (key param) = Undefined \<or> vals (key param) = Text []) \<longrightarrow>
      valueErrors vals pars (key param) = Some ValorObrigatorio
      \<and> validateOne vals param E = E(key param \<mapsto> ValorObrigatorio)
      \<and> handleExecute vals pars = NotSubmitted)
   \<and> (handleExecute vals pars \<noteq> NotSubmitted \<longleftrightarrow> (\<forall>k. valueErrors vals pars k = None))"
proof -
  have sub: "handleExecute vals pars \<noteq> NotSubmitted \<longleftrightarrow> (\<forall>k. valueErrors vals pars k = None)"
    by (auto simp: handleExecute_def validateValues_def split: sum.splits)
  have "param \<in> set pars \<and> (vals (key param) = Undefined \<or> vals (key param) = Text []) \<longrightarrow>
      valueErrors vals pars (key param) = Some ValorObrigatorio"
    using foldl_validate_missing [of vals "key param" Map.empty pars]
    by (auto simp: valueErrors_def)
  with sub validateOne_missing [of vals param E] show ?thesis
    by (metis option.distinct(1))
qed

lemma mandatory_values_sample:
  "valueErrors (handleValueChange ''rows'' ''10'' initialValues)
       [sampleParameter ''rows'' T_int JNull, sampleParameter ''tags'' T_list JNull] ''tags''
     = Some ValorObrigatorio
   \<and> handleExecute (handleValueChange ''rows'' ''10'' initialValues)
       [sampleParameter ''rows'' T_int JNull, sampleParameter ''tags'' T_list JNull] = NotSubmitted
   \<and> handleExecute (handleValueChange ''tags'' [] initialValues)
       [sampleParameter ''tags'' T_list JNull] = NotSubmitted"
  using mandatory_values [of "sampleParameter ''tags'' T_list JNull"
      "[sampleParameter ''rows'' T_int JNull, sampleParameter ''tags'' T_list JNull]"
      "handleValueChange ''rows'' ''10'' initialValues" Map.empty]
    mandatory_values [of "sampleParameter ''tags'' T_list JNull"
      "[sampleParameter ''tags'' T_list JNull]"
      "handleValueChange ''tags'' [] initialValues" Map.empty]
  by (simp add: sampleParameter_def handleValueChange_def initialValues_def objectPrototypeNames_def)

text \<open>
  C8. The claim: for every parameter of the pipeline being executed, if the user entered
  no value or the empty string, validation records a mandatory-value error for that
  parameter and submission does not proceed. The code misses it for a parameter whose key
  names a member of \<open>Object.prototype\<close>: with nothing entered for the parameter "toString"
  of type string (a key the pipeline forms accept), \<open>values["toString"]\<close> is the inherited
  function, not \<open>undefined\<close>, no error is recorded and the form is submitted without a
  value for the parameter. For an ordinary key such as "rows" the error is recorded and
  nothing is submitted.
\<close>

theorem mandatory_check_missed:
  "initialValues ''toString'' = Inherited
   \<and> keyRegex_test ''toString''
   \<and> valueErrors initialValues [sampleParameter ''toString'' T_string JNull] ''toString'' = None
   \<and> handleExecute initialValues [sampleParameter ''toString'' T_string JNull]
       = Submitted [(''toString'', JNative)]
   \<and> valueErrors initialValues [sampleParameter ''rows'' T_string JNull] ''rows''
       = Some ValorObrigatorio
   \<and> handleExecute initialValues [sampleParameter ''rows'' T_string JNull] = NotSubmitted"
proof -
  have k: "keyRegex_test ''toString''" by code_simp
  have a: "initialValues ''toString'' = Inherited" "initialValues ''rows'' = Undefined"
    by (simp_all add: initialValues_def objectPrototypeNames_def)
  have e1: "valueErrors initialValues [sampleParameter ''toString'' T_string JNull] = Map.empty"
    by (simp add: valueErrors_def validateOne_def a sampleParameter_def validateParameterValue_def)
  have e2: "valueErrors initialValues [sampleParameter ''rows'' T_string JNull]
      = [''rows'' \<mapsto> ValorObrigatorio]"
    by (simp add: valueErrors_def validateOne_def a sampleParameter_def)
  have v: "validateValues initialValues [sampleParameter ''toString'' T_string JNull]"
    unfolding validateValues_def e1 by simp
  have p: "processValues initialValues [sampleParameter ''toString'' T_string JNull] []
       = Inr [(''toString'', JNative)]"
    by (simp add: a sampleParameter_def processValue_def entryValue_def)
  have h1: "handleExecute initialValues [sampleParameter ''toString'' T_string JNull]
       = Submitted [(''toString'', JNative)]"
    unfolding handleExecute_def p using v by simp
  have h2: "handleExecute initialValues [sampleParameter ''rows'' T_string JNull] = NotSubmitted"
    by (simp add: handleExecute_def validateValues_def e2)
  from k a(1) e1 e2 h1 h2 show ?thesis by simp
qed

text \<open>
  C9. \<open>updatePipeline\<close> replaces every entry of the catalog whose id is that of the given
  pipeline and leaves every other entry, the length and the order of the list unchanged;
  it leaves the catalog as it is when no entry has that id. \<open>deletePipeline\<close> removes
  exactly the entries with the given id. After each of these changes (and after
  \<open>addPipeline\<close>) the item in storage is the serialization of the whole new list: a JSON
  array of the JSON texts of all its pipelines, in the order of the list. For a catalog
  of two pipelines the stored text is written out.
\<close>

theorem store_mutations:
  \<open>length (pipelines (updatePipeline u s)) = length (pipelines s)
   \<and> (\<forall>i < length (pipelines s).
        pipelines (updatePipeline u s) ! i
          = (if id' (pipelines s ! i) = id' u then u else pipelines s ! i))
   \<and> (id' u \<notin> id' ` set (pipelines s) \<longrightarrow> pipelines (updatePipeline u s) = pipelines s)
   \<and> pipelines (deletePipeline i s) = filter (\<lambda>p. id' p \<noteq> i) (pipelines s)
   \<and> pipelines (addPipeline u s) = pipelines s @ [u]
   \<and> storage (updatePipeline u s) = serialize (pipelines (updatePipeline u s))
   \<and> storage (deletePipeline i s) = serialize (pipelines (deletePipeline i s))
   \<and> storage (addPipeline u s) = serialize (pipelines (addPipeline u s))
   \<and> serialize (pipelines (updatePipeline u s)) \<noteq> None
   \<and> storage (updatePipeline u s)
       = Some (''['' @ joinWith '','' (map (\<lambda>p. the (JSON_stringify (pipelineToJS p)))
                                         (pipelines (updatePipeline u s))) @ '']'')
   \<and> storage (deletePipeline i s)
       = Some (''['' @ joinWith '','' (map (\<lambda>p. the (JSON_stringify (pipelineToJS p)))
                                         (pipelines (deletePipeline i s))) @ '']'')
   \<and> storage (addPipeline u s)
       = Some (''['' @ joinWith '','' (map (\<lambda>p. the (JSON_stringify (pipelineToJS p)))
                                         (pipelines (addPipeline u s))) @ '']'')
   \<and> storage (updatePipeline (samplePipeline ''p1'' [])
        \<lparr>pipelines = [samplePipeline ''p1'' [sampleParameter ''rows'' T_int JNull],
                      samplePipeline ''p2'' [sampleParameter ''rows'' T_int JNull]],
         storage = None\<rparr>)
       = Some ''[{"id":"p1","name":"etl","description":"","createdAt":"2023-11-14T22:13:20.123Z","parameters":[]},{"id":"p2","name":"etl","description":"","createdAt":"2023-11-14T22:13:20.123Z","parameters":[{"key":"rows","type":"int","value":null}]}]''\<close>
proof -
  have "map (\<lambda>p. if id' p = id' u then u else p) (pipelines s) = pipelines s"
    if "id' u \<notin> id' ` set (pipelines s)"
  proof (rule map_idI)
    fix x assume "x \<in> set (pipelines s)"
    with that have "id' x \<noteq> id' u" by (metis imageI)
    then show "(if id' x = id' u then u else x) = x" by simp
  qed
  then have "id' u \<notin> id' ` set (pipelines s) \<longrightarrow> pipelines (updatePipeline u s) = pipelines s"
    by (simp add: updatePipeline_def save_def)
  then have lists: "length (pipelines (updatePipeline u s)) = length (pipelines s)
   \<and> (\<forall>i < length (pipelines s).
        pipelines (updatePipeline u s) ! i
          = (if id' (pipelines s ! i) = id' u then u else pipelines s ! i))
   \<and> (id' u \<notin> id' ` set (pipelines s) \<longrightarrow> pipelines (updatePipeline u s) = pipelines s)
   \<and> pipelines (deletePipeline i s) = filter (\<lambda>p. id' p \<noteq> i) (pipelines s)
   \<and> pipelines (addPipeline u s) = pipelines s @ [u]
   \<and> storage (updatePipeline u s) = serialize (pipelines (updatePipeline u s))
   \<and> storage (deletePipeline i s) = serialize (pipelines (deletePipeline i s))
   \<and> storage (addPipeline u s) = serialize (pipelines (addPipeline u s))
   \<and> serialize (pipelines (updatePipeline u s)) \<noteq> None"
    by (simp add: updatePipeline_def deletePipeline_def addPipeline_def save_def serialize_def)
  have st: "storage (save t) = serialize (pipelines (save t))" for t
    by (simp add: save_def)
  have texts: "storage (updatePipeline u s)
       = Some (''['' @ joinWith '','' (map (\<lambda>p. the (JSON_stringify (pipelineToJS p)))
                                         (pipelines (updatePipeline u s))) @ '']'')"
    "storage (deletePipeline i s)
       = Some (''['' @ joinWith '','' (map (\<lambda>p. the (JSON_stringify (pipelineToJS p)))
                                         (pipelines (deletePipeline i s))) @ '']'')"
    "storage (addPipeline u s)
       = Some (''['' @ joinWith '','' (map (\<lambda>p. the (JSON_stringify (pipelineToJS p)))
                                         (pipelines (addPipeline u s))) @ '']'')"
    unfolding updatePipeline_def deletePipeline_def addPipeline_def st
    by (rule serialize_text)+
  have sample: \<open>storage (updatePipeline (samplePipeline ''p1'' [])
        \<lparr>pipelines = [samplePipeline ''p1'' [sampleParameter ''rows'' T_int JNull],
                      samplePipeline ''p2'' [sampleParameter ''rows'' T_int JNull]],
         storage = None\<rparr>)
       = Some ''[{"id":"p1","name":"etl","description":"","createdAt":"2023-11-14T22:13:20.123Z","parameters":[]},{"id":"p2","name":"etl","description":"","createdAt":"2023-11-14T22:13:20.123Z","parameters":[{"key":"rows","type":"int","value":null}]}]''\<close>
    by code_simp
  show ?thesis
    by (insert lists texts sample, elim conjE, intro conjI) assumption+
qed

theorem store_mutations_witness:
  \<open>pipelines (updatePipeline (samplePipeline ''p1'' [])
      \<lparr>pipelines = [samplePipeline ''p1'' [sampleParameter ''rows'' T_int JNull],
                    samplePipeline ''p2'' []], storage = None\<rparr>) ! 0
     = samplePipeline ''p1'' []
   \<and> pipelines (updatePipeline (samplePipeline ''p1'' [])
      \<lparr>pipelines = [samplePipeline ''p1'' [sampleParameter ''rows'' T_int JNull],
                    samplePipeline ''p2'' []], storage = None\<rparr>) ! 1
     = samplePipeline ''p2'' []
   \<and> pipelines (updatePipeline (samplePipeline ''p3'' [])
      \<lparr>pipelines = [samplePipeline ''p1'' [sampleParameter ''rows'' T_int JNull],
                    samplePipeline ''p2'' []], storage = None\<rparr>)
     = [samplePipeline ''p1'' [sampleParameter ''rows'' T_int JNull], samplePipeline ''p2'' []]
   \<and> storage (deletePipeline ''p1''
      \<lparr>pipelines = [samplePipeline ''p1'' [sampleParameter ''rows'' T_int JNull],
                    samplePipeline ''p2'' []], storage = None\<rparr>)
     = Some ''[{"id":"p2","name":"etl","description":"","createdAt":"2023-11-14T22:13:20.123Z","parameters":[]}]''
   \<and> loadPipelines (storage (updatePipeline (samplePipeline ''p1'' [])
      \<lparr>pipelines = [samplePipeline ''p1'' [sampleParameter ''rows'' T_int JNull],
                    samplePipeline ''p2'' []], storage = None\<rparr>))
     = Loaded [samplePipeline ''p1'' [], samplePipeline ''p2'' []]\<close>
proof -
  have lists: "pipelines (updatePipeline (samplePipeline ''p1'' [])
      \<lparr>pipelines = [samplePipeline ''p1'' [sampleParameter ''rows'' T_int JNull],
                    samplePipeline ''p2'' []], storage = None\<rparr>) ! 0
     = samplePipeline ''p1'' []
   \<and> pipelines (updatePipeline (samplePipeline ''p1'' [])
      \<lparr>pipelines = [samplePipeline ''p1'' [sampleParameter ''rows'' T_int JNull],
                    samplePipeline ''p2'' []], storage = None\<rparr>) ! 1
     = samplePipeline ''p2'' []
   \<and> pipelines (updatePipeline (samplePipeline ''p3'' [])
      \<lparr>pipelines = [samplePipeline ''p1'' [sampleParameter ''rows'' T_int JNull],
                    samplePipeline ''p2'' []], storage = None\<rparr>)
     = [samplePipeline ''p1'' [sampleParameter ''rows'' T_int JNull], samplePipeline ''p2'' []]"
    using store_mutations [of "samplePipeline ''p1'' []"
      "\<lparr>pipelines = [samplePipeline ''p1'' [sampleParameter ''rows'' T_int JNull],
                    samplePipeline ''p2'' []], storage = None\<rparr>"]
    store_mutations [of "samplePipeline ''p3'' []"
      "\<lparr>pipelines = [samplePipeline ''p1'' [sampleParameter ''rows'' T_int JNull],
                    samplePipeline ''p2'' []], storage = None\<rparr>"]
    by (simp add: samplePipeline_def)
  have stored: \<open>storage (deletePipeline ''p1''
      \<lparr>pipelines = [samplePipeline ''p1'' [sampleParameter ''rows'' T_int JNull],
                    samplePipeline ''p2'' []], storage = None\<rparr>)
     = Some ''[{"id":"p2","name":"etl","description":"","createdAt":"2023-11-14T22:13:20.123Z","parameters":[]}]''\<close>
    by code_simp
  have reload: "loadPipelines (storage (updatePipeline (samplePipeline ''p1'' [])
      \<lparr>pipelines = [samplePipeline ''p1'' [sampleParameter ''rows'' T_int JNull],
                    samplePipeline ''p2'' []], storage = None\<rparr>))
     = Loaded [samplePipeline ''p1'' [], samplePipeline ''p2'' []]"
    by code_simp
  show ?thesis
    by (insert lists stored reload, elim conjE, intro conjI) assumption+
qed




text \<open>
  C10. When \<open>handleSave\<close> of the edit form writes to the catalog, the pipeline it gives to
  \<open>updatePipeline\<close> has the id of the edited pipeline and the value \<open>null\<close> in every
  parameter, whatever values the parameters carried before; every catalog entry with that
  id then has only \<open>null\<close> parameter values, and the storage holds the new list.
\<close>

theorem edit_discards_values:
  "handleSave pipeline form s = Some s' \<longrightarrow>
     s' = updatePipeline (updatedPipelineOf pipeline form) s
     \<and> id' (updatedPipelineOf pipeline form) = id' pipeline
     \<and> (\<forall>q \<in> set (parameters (updatedPipelineOf pipeline form)). value' q = JNull)
     \<and> (\<forall>p \<in> set (pipelines s'). id' p = id' pipeline \<longrightarrow> (\<forall>q \<in> set (parameters p). value' q = JNull))
     \<and> storage s' = serialize (pipelines s')"
  by (auto simp: handleSave_def updatedPipelineOf_def updatePipeline_def save_def Let_def
      split: if_splits)

theorem edit_discards_values_witness:
  "handleSave (samplePipeline ''p1'' [sampleParameter ''rows'' T_int (JStr ''7'')])
       \<lparr>nameField = ''etl'', descriptionField = [],
        parametersField = [sampleParameter ''rows'' T_int (JStr ''7'')]\<rparr>
       \<lparr>pipelines = [samplePipeline ''p1'' [sampleParameter ''rows'' T_int (JStr ''7'')]],
        storage = None\<rparr>
     = Some (updatePipeline (samplePipeline ''p1'' [sampleParameter ''rows'' T_int JNull])
         \<lparr>pipelines = [samplePipeline ''p1'' [sampleParameter ''rows'' T_int (JStr ''7'')]],
          storage = None\<rparr>)
   \<and> pipelines (updatePipeline (samplePipeline ''p1'' [sampleParameter ''rows'' T_int JNull])
         \<lparr>pipelines = [samplePipeline ''p1'' [sampleParameter ''rows'' T_int (JStr ''7'')]],
          storage = None\<rparr>)
     = [samplePipeline ''p1'' [sampleParameter ''rows'' T_int JNull]]"
proof -
  have valid: "validateForm ''etl'' [] [sampleParameter ''rows'' T_int (JStr ''7'')]"
    using sample_keys
    by (simp add: validateForm_def formErrors_def validateName_def validateDescription_def
        sampleParameter_def)
  have saved: "handleSave (samplePipeline ''p1'' [sampleParameter ''rows'' T_int (JStr ''7'')])
       \<lparr>nameField = ''etl'', descriptionField = [],
        parametersField = [sampleParameter ''rows'' T_int (JStr ''7'')]\<rparr>
       \<lparr>pipelines = [samplePipeline ''p1'' [sampleParameter ''rows'' T_int (JStr ''7'')]],
        storage = None\<rparr>
     = Some (updatePipeline (samplePipeline ''p1'' [sampleParameter ''rows'' T_int JNull])
         \<lparr>pipelines = [samplePipeline ''p1'' [sampleParameter ''rows'' T_int (JStr ''7'')]],
          storage = None\<rparr>)"
    using valid
    by (simp add: handleSave_def updatedPipelineOf_def samplePipeline_def sampleParameter_def)
  from saved
    edit_discards_values [of "samplePipeline ''p1'' [sampleParameter ''rows'' T_int (JStr ''7'')]"
      "\<lparr>nameField = ''etl'', descriptionField = [],
        parametersField = [sampleParameter ''rows'' T_int (JStr ''7'')]\<rparr>"
      "\<lparr>pipelines = [samplePipeline ''p1'' [sampleParameter ''rows'' T_int (JStr ''7'')]],
        storage = None\<rparr>"]
  show ?thesis
    by (simp add: updatePipeline_def save_def samplePipeline_def)
qed

end
